theory Spec2Isabelle
  imports Complex_Main "HOL-Library.Numeral_Type" "HOL-Library.Word" "HOL-Library.Signed_Division"
begin

section \<open>portal3d: transform algebra and triangle rasterizer\<close>

text \<open>
  A shallow embedding of \<^verbatim>\<open>src/matrix.c\<close> and \<^verbatim>\<open>src/triangle.c\<close>.

  Conventions of the embedding:
  \<^item> a C \<^verbatim>\<open>float\<close> (and the \<^verbatim>\<open>double\<close> intermediate values) is a real number: values are
    finite and arithmetic does not round. Division is HOL's \<open>/\<close>, whose value at a zero divisor
    is 0 where C gives an infinity or a NaN: no statement below depends on the value of such
    a division, and the runs on concrete inputs divide by non-zero values only;
  \<^item> the products and sums of \<^verbatim>\<open>mat4_mul_vec4\<close> and \<^verbatim>\<open>mat4_mul_mat4\<close> are also given over floats
    that may be infinite or NaN (\<open>ieee\<close>), where \<open>0 * infinity\<close> is NaN;
  \<^item> a C \<^verbatim>\<open>int\<close> is an integer of HOL; integer arithmetic does not overflow, but the cast
    \<^verbatim>\<open>(int)\<close> of a float has the 32-bit range: it truncates towards zero, and a value outside
    the range gives \<open>INT_MIN\<close> (\<open>c_int_of_float\<close>); \<^verbatim>\<open>abs\<close> is \<open>c_abs\<close>, the operator \<^verbatim>\<open>%\<close> is the
    truncated remainder \<open>smod\<close>;
  \<^item> \<^verbatim>\<open>uint32_t\<close> is \<open>32 word\<close>;
  \<^item> \<^verbatim>\<open>float m[4][4]\<close> is a function of two indices of the four-element type \<open>4\<close>, so that two
    matrices are equal exactly when their sixteen entries are.
\<close>

subsection \<open>Vectors (vector.h)\<close>

type_synonym c_float = real

record vec2_t =
  vec2_x :: c_float
  vec2_y :: c_float

record vec3_t =
  vec3_x :: c_float
  vec3_y :: c_float
  vec3_z :: c_float

record vec4_t =
  vec4_x :: c_float
  vec4_y :: c_float
  vec4_z :: c_float
  vec4_w :: c_float

text \<open>Modelled from the spec: \<^verbatim>\<open>vec2_sub\<close> (vector.c is absent), the difference \<open>a - b\<close> of two
  2D vectors, component by component.\<close>

definition vec2_sub :: "vec2_t \<Rightarrow> vec2_t \<Rightarrow> vec2_t" where
  "vec2_sub a b = \<lparr>vec2_x = vec2_x a - vec2_x b, vec2_y = vec2_y a - vec2_y b\<rparr>"

text \<open>Modelled from the spec: \<^verbatim>\<open>vec2_from_vec4\<close> (vector.c is absent), the 2D screen position
  of a projected vertex: its x and y.\<close>

definition vec2_from_vec4 :: "vec4_t \<Rightarrow> vec2_t" where
  "vec2_from_vec4 v = \<lparr>vec2_x = vec4_x v, vec2_y = vec4_y v\<rparr>"

text \<open>Modelled from the spec: \<^verbatim>\<open>vec3_sub\<close>, \<^verbatim>\<open>vec3_cross\<close>, \<^verbatim>\<open>vec3_dot\<close> and
  \<^verbatim>\<open>vec3_normalize\<close> (vector.c is absent): difference, cross product, dot product and
  division by the Euclidean length.\<close>

definition vec3_sub :: "vec3_t \<Rightarrow> vec3_t \<Rightarrow> vec3_t" where
  "vec3_sub a b =
     \<lparr>vec3_x = vec3_x a - vec3_x b, vec3_y = vec3_y a - vec3_y b, vec3_z = vec3_z a - vec3_z b\<rparr>"

definition vec3_cross :: "vec3_t \<Rightarrow> vec3_t \<Rightarrow> vec3_t" where
  "vec3_cross a b =
     \<lparr>vec3_x = vec3_y a * vec3_z b - vec3_z a * vec3_y b,
      vec3_y = vec3_z a * vec3_x b - vec3_x a * vec3_z b,
      vec3_z = vec3_x a * vec3_y b - vec3_y a * vec3_x b\<rparr>"

definition vec3_dot :: "vec3_t \<Rightarrow> vec3_t \<Rightarrow> c_float" where
  "vec3_dot a b = vec3_x a * vec3_x b + vec3_y a * vec3_y b + vec3_z a * vec3_z b"

definition vec3_normalize :: "vec3_t \<Rightarrow> vec3_t" where
  "vec3_normalize v =
     (let len = sqrt (vec3_x v * vec3_x v + vec3_y v * vec3_y v + vec3_z v * vec3_z v)
      in \<lparr>vec3_x = vec3_x v / len, vec3_y = vec3_y v / len, vec3_z = vec3_z v / len\<rparr>)"

subsection \<open>Matrices (matrix.c)\<close>

type_synonym mat4_t = "4 \<Rightarrow> 4 \<Rightarrow> c_float"

text \<open>The assignment \<^verbatim>\<open>matrix.m[i][j] = v\<close>.\<close>

definition mat4_set :: "mat4_t \<Rightarrow> 4 \<Rightarrow> 4 \<Rightarrow> c_float \<Rightarrow> mat4_t" where
  "mat4_set a i j v = a(i := (a i)(j := v))"

text \<open>The initializer \<^verbatim>\<open>{{r0}, {r1}, {r2}, {r3}}\<close> of four rows of four entries.\<close>

definition mat4_row :: "c_float \<Rightarrow> c_float \<Rightarrow> c_float \<Rightarrow> c_float \<Rightarrow> 4 \<Rightarrow> c_float" where
  "mat4_row a b c d j = (if j = 0 then a else if j = 1 then b else if j = 2 then c else d)"

definition mat4_rows :: "(4 \<Rightarrow> c_float) \<Rightarrow> (4 \<Rightarrow> c_float) \<Rightarrow> (4 \<Rightarrow> c_float) \<Rightarrow> (4 \<Rightarrow> c_float) \<Rightarrow> mat4_t" where
  "mat4_rows r0 r1 r2 r3 i = (if i = 0 then r0 else if i = 1 then r1 else if i = 2 then r2 else r3)"

definition mat4_identity :: mat4_t where
  "mat4_identity =
     mat4_rows (mat4_row 1 0 0 0) (mat4_row 0 1 0 0) (mat4_row 0 0 1 0) (mat4_row 0 0 0 1)"

definition mat4_make_scale :: "c_float \<Rightarrow> c_float \<Rightarrow> c_float \<Rightarrow> mat4_t" where
  "mat4_make_scale sx sy sz =
     (let matrix = mat4_identity;
          matrix = mat4_set matrix 0 0 sx;
          matrix = mat4_set matrix 1 1 sy;
          matrix = mat4_set matrix 2 2 sz
      in matrix)"

definition mat4_mul_vec4 :: "mat4_t \<Rightarrow> vec4_t \<Rightarrow> vec4_t" where
  "mat4_mul_vec4 a v =
     \<lparr>vec4_x = (a 0 0 * vec4_x v) + (a 0 1 * vec4_y v) + (a 0 2 * vec4_z v) + (a 0 3 * vec4_w v),
      vec4_y = (a 1 0 * vec4_x v) + (a 1 1 * vec4_y v) + (a 1 2 * vec4_z v) + (a 1 3 * vec4_w v),
      vec4_z = (a 2 0 * vec4_x v) + (a 2 1 * vec4_y v) + (a 2 2 * vec4_z v) + (a 2 3 * vec4_w v),
      vec4_w = (a 3 0 * vec4_x v) + (a 3 1 * vec4_y v) + (a 3 2 * vec4_z v) + (a 3 3 * vec4_w v)\<rparr>"

definition mat4_make_translation :: "c_float \<Rightarrow> c_float \<Rightarrow> c_float \<Rightarrow> mat4_t" where
  "mat4_make_translation tx ty tz =
     (let matrix = mat4_identity;
          matrix = mat4_set matrix 0 3 tx;
          matrix = mat4_set matrix 1 3 ty;
          matrix = mat4_set matrix 2 3 tz
      in matrix)"

definition mat4_make_rotation_z :: "c_float \<Rightarrow> mat4_t" where
  "mat4_make_rotation_z angle =
     (let c = cos angle;
          s = sin angle;
          matrix = mat4_identity;
          matrix = mat4_set matrix 0 0 c;
          matrix = mat4_set matrix 0 1 (- s);
          matrix = mat4_set matrix 1 0 s;
          matrix = mat4_set matrix 1 1 c
      in matrix)"

definition mat4_make_rotation_x :: "c_float \<Rightarrow> mat4_t" where
  "mat4_make_rotation_x angle =
     (let c = cos angle;
          s = sin angle;
          matrix = mat4_identity;
          matrix = mat4_set matrix 1 1 c;
          matrix = mat4_set matrix 1 2 (- s);
          matrix = mat4_set matrix 2 1 s;
          matrix = mat4_set matrix 2 2 c
      in matrix)"

definition mat4_make_rotation_y :: "c_float \<Rightarrow> mat4_t" where
  "mat4_make_rotation_y angle =
     (let c = cos angle;
          s = sin angle;
          matrix = mat4_identity;
          matrix = mat4_set matrix 0 0 c;
          matrix = mat4_set matrix 0 2 s;
          matrix = mat4_set matrix 2 0 (- s);
          matrix = mat4_set matrix 2 2 c
      in matrix)"

text \<open>The two loops over \<open>i\<close> and \<open>j\<close> assign every entry of the result once, from \<open>a\<close> and
  \<open>b\<close> only: the result is the function of \<open>i\<close> and \<open>j\<close> that the loop body computes.\<close>

definition mat4_mul_mat4 :: "mat4_t \<Rightarrow> mat4_t \<Rightarrow> mat4_t" where
  "mat4_mul_mat4 a b =
     (\<lambda>i j. (a i 0 * b 0 j) + (a i 1 * b 1 j) + (a i 2 * b 2 j) + (a i 3 * b 3 j))"

definition mat4_make_perspective :: "c_float \<Rightarrow> c_float \<Rightarrow> c_float \<Rightarrow> c_float \<Rightarrow> mat4_t" where
  "mat4_make_perspective fov aspect_ratio znear zfar =
     (let result = (\<lambda>i j. 0);
          result = mat4_set result 0 0 (aspect_ratio * (1 / tan (fov / 2)));
          result = mat4_set result 1 1 (1 / tan (fov / 2));
          result = mat4_set result 2 2 (zfar / (zfar - znear));
          result = mat4_set result 2 3 ((- zfar * znear) / (zfar - znear));
          result = mat4_set result 3 2 1
      in result)"

definition mat4_mul_vec4_project :: "mat4_t \<Rightarrow> vec4_t \<Rightarrow> vec4_t" where
  "mat4_mul_vec4_project mat_proj v =
     (let result = mat4_mul_vec4 mat_proj v
      in if vec4_w result \<noteq> 0
         then (let result = result\<lparr>vec4_x := vec4_x result / vec4_w result\<rparr>;
                   result = result\<lparr>vec4_y := vec4_y result / vec4_w result\<rparr>;
                   result = result\<lparr>vec4_z := vec4_z result / vec4_w result\<rparr>
               in result)
         else result)"

definition mat4_look_at :: "vec3_t \<Rightarrow> vec3_t \<Rightarrow> vec3_t \<Rightarrow> mat4_t" where
  "mat4_look_at eye target up =
     (let z = vec3_sub target eye;
          z = vec3_normalize z;
          x = vec3_cross up z;
          x = vec3_normalize x;
          y = vec3_cross z x
      in mat4_rows
           (mat4_row (vec3_x x) (vec3_y x) (vec3_z x) (- vec3_dot x eye))
           (mat4_row (vec3_x y) (vec3_y y) (vec3_z y) (- vec3_dot y eye))
           (mat4_row (vec3_x z) (vec3_y z) (vec3_z z) (- vec3_dot z eye))
           (mat4_row 0 0 0 1))"

text \<open>The perspective matrix as the specification writes it, entry by entry.\<close>

definition perspective_spec :: "c_float \<Rightarrow> c_float \<Rightarrow> c_float \<Rightarrow> c_float \<Rightarrow> mat4_t" where
  "perspective_spec fov_y aspect_ratio z_near z_far =
     mat4_rows
       (mat4_row (aspect_ratio / tan (fov_y / 2)) 0 0 0)
       (mat4_row 0 (1 / tan (fov_y / 2)) 0 0)
       (mat4_row 0 0 (z_far / (z_far - z_near)) (- z_far * z_near / (z_far - z_near)))
       (mat4_row 0 0 1 0)"

text \<open>The bottom row \<^verbatim>\<open>m[3][0..3]\<close> of a matrix.\<close>

definition bottom_row :: "mat4_t \<Rightarrow> c_float list" where
  "bottom_row a = [a 3 0, a 3 1, a 3 2, a 3 3]"

subsection \<open>Matrix products over floats that may be infinite or NaN\<close>

text \<open>A float is a finite value, an infinity with its sign (\<open>True\<close> for \<open>+\<close>) or NaN. The product
  and the sum follow IEEE 754 on the special values: NaN propagates, \<open>0 * infinity\<close> and
  \<open>infinity - infinity\<close> are NaN. On finite values they are the exact product and sum (no
  rounding, no overflow, no sign of zero).\<close>

datatype ieee = Finite real | Infinity bool | NaN

fun ieee_mul :: "ieee \<Rightarrow> ieee \<Rightarrow> ieee" where
  "ieee_mul NaN b = NaN"
| "ieee_mul a NaN = NaN"
| "ieee_mul (Finite a) (Finite b) = Finite (a * b)"
| "ieee_mul (Finite a) (Infinity t) = (if a = 0 then NaN else Infinity ((0 < a) = t))"
| "ieee_mul (Infinity s) (Finite b) = (if b = 0 then NaN else Infinity (s = (0 < b)))"
| "ieee_mul (Infinity s) (Infinity t) = Infinity (s = t)"

fun ieee_add :: "ieee \<Rightarrow> ieee \<Rightarrow> ieee" where
  "ieee_add NaN b = NaN"
| "ieee_add a NaN = NaN"
| "ieee_add (Finite a) (Finite b) = Finite (a + b)"
| "ieee_add (Finite a) (Infinity t) = Infinity t"
| "ieee_add (Infinity s) (Finite b) = Infinity s"
| "ieee_add (Infinity s) (Infinity t) = (if s = t then Infinity s else NaN)"

record ieee_vec4 =
  ieee_x :: ieee
  ieee_y :: ieee
  ieee_z :: ieee
  ieee_w :: ieee

type_synonym ieee_mat4 = "4 \<Rightarrow> 4 \<Rightarrow> ieee"

text \<open>A vector and a matrix of finite components.\<close>

definition ieee_of_vec4 :: "vec4_t \<Rightarrow> ieee_vec4" where
  "ieee_of_vec4 v =
     \<lparr>ieee_x = Finite (vec4_x v), ieee_y = Finite (vec4_y v), ieee_z = Finite (vec4_z v),
      ieee_w = Finite (vec4_w v)\<rparr>"

definition ieee_of_mat4 :: "mat4_t \<Rightarrow> ieee_mat4" where
  "ieee_of_mat4 a = (\<lambda>i j. Finite (a i j))"

text \<open>\<^verbatim>\<open>mat4_identity\<close>: its entries are the finite values 0 and 1.\<close>

definition mat4_identity_ieee :: ieee_mat4 where
  "mat4_identity_ieee = ieee_of_mat4 mat4_identity"

text \<open>\<^verbatim>\<open>mat4_mul_vec4\<close> (lines 36-48) and \<^verbatim>\<open>mat4_mul_mat4\<close> (lines 145-154) on such floats: the
  same four products, added left to right.\<close>

definition mat4_mul_vec4_ieee :: "ieee_mat4 \<Rightarrow> ieee_vec4 \<Rightarrow> ieee_vec4" where
  "mat4_mul_vec4_ieee a v =
     \<lparr>ieee_x = ieee_add (ieee_add (ieee_add (ieee_mul (a 0 0) (ieee_x v)) (ieee_mul (a 0 1) (ieee_y v)))
                  (ieee_mul (a 0 2) (ieee_z v))) (ieee_mul (a 0 3) (ieee_w v)),
      ieee_y = ieee_add (ieee_add (ieee_add (ieee_mul (a 1 0) (ieee_x v)) (ieee_mul (a 1 1) (ieee_y v)))
                  (ieee_mul (a 1 2) (ieee_z v))) (ieee_mul (a 1 3) (ieee_w v)),
      ieee_z = ieee_add (ieee_add (ieee_add (ieee_mul (a 2 0) (ieee_x v)) (ieee_mul (a 2 1) (ieee_y v)))
                  (ieee_mul (a 2 2) (ieee_z v))) (ieee_mul (a 2 3) (ieee_w v)),
      ieee_w = ieee_add (ieee_add (ieee_add (ieee_mul (a 3 0) (ieee_x v)) (ieee_mul (a 3 1) (ieee_y v)))
                  (ieee_mul (a 3 2) (ieee_z v))) (ieee_mul (a 3 3) (ieee_w v))\<rparr>"

definition mat4_mul_mat4_ieee :: "ieee_mat4 \<Rightarrow> ieee_mat4 \<Rightarrow> ieee_mat4" where
  "mat4_mul_mat4_ieee a b =
     (\<lambda>i j. ieee_add (ieee_add (ieee_add (ieee_mul (a i 0) (b 0 j)) (ieee_mul (a i 1) (b 1 j)))
               (ieee_mul (a i 2) (b 2 j))) (ieee_mul (a i 3) (b 3 j)))"

subsection \<open>External collaborators of the rasterizer\<close>

type_synonym color_t = "32 word"

record tex2_t =
  tex_u :: c_float
  tex_v :: c_float

text \<open>Modelled from the spec: the texture source (upng is absent), which exposes a width,
  a height and a texel buffer indexable as \<^verbatim>\<open>buffer[y*width + x]\<close> yielding a packed color.\<close>

record upng_t =
  upng_get_width :: int
  upng_get_height :: int
  upng_get_buffer :: "int \<Rightarrow> color_t"

text \<open>The frame buffer and the depth buffer belong to display.c, which is absent: its three
  operations are parameters of the rasterizer, acting on a state of any type \<open>'s\<close>.\<close>

record 's display =
  draw_pixel :: "int \<Rightarrow> int \<Rightarrow> color_t \<Rightarrow> 's \<Rightarrow> 's"
  get_zbuffer_at :: "int \<Rightarrow> int \<Rightarrow> 's \<Rightarrow> c_float"
  set_zbuffer_at :: "int \<Rightarrow> int \<Rightarrow> c_float \<Rightarrow> 's \<Rightarrow> 's"

subsection \<open>C arithmetic used by the rasterizer\<close>

text \<open>The conversion \<^verbatim>\<open>(int)f\<close> of a float to the 32-bit \<^verbatim>\<open>int\<close>, also implicit in
  \<^verbatim>\<open>int x = f;\<close>: the fractional part is discarded (truncation towards zero). When the
  truncated value is not an \<^verbatim>\<open>int\<close> the C standard leaves the result undefined; the value here
  is the one the conversion instruction of x86-64 returns, \<^verbatim>\<open>INT_MIN\<close>.\<close>

definition c_int_of_float :: "c_float \<Rightarrow> int" where
  "c_int_of_float f =
     (let t = (if 0 \<le> f then \<lfloor>f\<rfloor> else \<lceil>f\<rceil>)
      in if - (2 ^ 31) \<le> t \<and> t < 2 ^ 31 then t else - (2 ^ 31))"

text \<open>\<^verbatim>\<open>abs\<close> of stdlib.h on a 32-bit \<^verbatim>\<open>int\<close>: the negation of \<^verbatim>\<open>INT_MIN\<close> is not an \<^verbatim>\<open>int\<close>
  (undefined in C); in two's complement it is \<^verbatim>\<open>INT_MIN\<close> again.\<close>

definition c_abs :: "int \<Rightarrow> int" where
  "c_abs i = (if i = - (2 ^ 31) then - (2 ^ 31) else \<bar>i\<bar>)"

subsection \<open>Barycentric weights and the two pixel routines (triangle.c)\<close>

definition barycentric_weights :: "vec2_t \<Rightarrow> vec2_t \<Rightarrow> vec2_t \<Rightarrow> vec2_t \<Rightarrow> vec3_t" where
  "barycentric_weights a b c p =
     (let ab = vec2_sub b a;
          bc = vec2_sub c b;
          ac = vec2_sub c a;
          ap = vec2_sub p a;
          bp = vec2_sub p b;
          area_triangle_abc = (vec2_x ab * vec2_y ac - vec2_y ab * vec2_x ac);
          alpha = (vec2_x bc * vec2_y bp - vec2_x bp * vec2_y bc) / area_triangle_abc;
          beta = (vec2_x ap * vec2_y ac - vec2_x ac * vec2_y ap) / area_triangle_abc;
          gamma = 1 - alpha - beta
      in \<lparr>vec3_x = alpha, vec3_y = beta, vec3_z = gamma\<rparr>)"

definition draw_triangle_pixel ::
  "'s display \<Rightarrow> int \<Rightarrow> int \<Rightarrow> color_t \<Rightarrow> vec4_t \<Rightarrow> vec4_t \<Rightarrow> vec4_t \<Rightarrow> 's \<Rightarrow> 's" where
  "draw_triangle_pixel D x y color point_a point_b point_c s =
     (let p = \<lparr>vec2_x = of_int x, vec2_y = of_int y\<rparr>;
          a = vec2_from_vec4 point_a;
          b = vec2_from_vec4 point_b;
          c = vec2_from_vec4 point_c;
          weights = barycentric_weights a b c p;
          alpha = vec3_x weights;
          beta = vec3_y weights;
          gamma = vec3_z weights;
          interpolated_reciprocal_w =
            (1 / vec4_w point_a) * alpha + (1 / vec4_w point_b) * beta + (1 / vec4_w point_c) * gamma;
          interpolated_reciprocal_w = 1 - interpolated_reciprocal_w
      in if interpolated_reciprocal_w < get_zbuffer_at D x y s
         then (let s = draw_pixel D x y color s
               in set_zbuffer_at D x y interpolated_reciprocal_w s)
         else s)"

definition draw_texel ::
  "'s display \<Rightarrow> int \<Rightarrow> int \<Rightarrow> upng_t \<Rightarrow> vec4_t \<Rightarrow> vec4_t \<Rightarrow> vec4_t \<Rightarrow>
     tex2_t \<Rightarrow> tex2_t \<Rightarrow> tex2_t \<Rightarrow> 's \<Rightarrow> 's" where
  "draw_texel D x y texture point_a point_b point_c a_uv b_uv c_uv s =
     (let p = \<lparr>vec2_x = of_int x, vec2_y = of_int y\<rparr>;
          a = vec2_from_vec4 point_a;
          b = vec2_from_vec4 point_b;
          c = vec2_from_vec4 point_c;
          weights = barycentric_weights a b c p;
          alpha = vec3_x weights;
          beta = vec3_y weights;
          gamma = vec3_z weights;
          interpolated_u =
            (tex_u a_uv / vec4_w point_a) * alpha + (tex_u b_uv / vec4_w point_b) * beta +
            (tex_u c_uv / vec4_w point_c) * gamma;
          interpolated_v =
            (tex_v a_uv / vec4_w point_a) * alpha + (tex_v b_uv / vec4_w point_b) * beta +
            (tex_v c_uv / vec4_w point_c) * gamma;
          interpolated_reciprocal_w =
            (1 / vec4_w point_a) * alpha + (1 / vec4_w point_b) * beta + (1 / vec4_w point_c) * gamma;
          interpolated_u = interpolated_u / interpolated_reciprocal_w;
          interpolated_v = interpolated_v / interpolated_reciprocal_w;
          texture_width = upng_get_width texture;
          texture_height = upng_get_height texture;
          tex_x = c_abs (c_int_of_float (interpolated_u * of_int texture_width)) smod texture_width;
          tex_y = c_abs (c_int_of_float (interpolated_v * of_int texture_height)) smod texture_height;
          interpolated_reciprocal_w = 1 - interpolated_reciprocal_w
      in if interpolated_reciprocal_w < get_zbuffer_at D x y s
         then (let texture_buffer = upng_get_buffer texture;
                   s = draw_pixel D x y (texture_buffer ((texture_width * tex_y) + tex_x)) s
               in set_zbuffer_at D x y interpolated_reciprocal_w s)
         else s)"

subsection \<open>Scanline fill (triangle.c)\<close>

text \<open>A vertex is its \<open>x\<close>, its \<open>y\<close> and the float attributes that travel with it
  (\<open>z, w\<close>, and \<open>u, v\<close> for a textured triangle). Lines 99-116 and 251-274: three
  compare-and-swap steps on \<open>y\<close>; \<^verbatim>\<open>int_swap\<close> and \<^verbatim>\<open>float_swap\<close> (swap.h is absent) exchange
  two variables, and every variable of the two vertices is exchanged in a step.\<close>

type_synonym 'a vertex = "int \<times> int \<times> 'a"

definition vertex_y :: "'a vertex \<Rightarrow> int" where
  "vertex_y v = fst (snd v)"

definition sort_vertices :: "'a vertex \<Rightarrow> 'a vertex \<Rightarrow> 'a vertex \<Rightarrow> 'a vertex \<times> 'a vertex \<times> 'a vertex" where
  "sort_vertices v0 v1 v2 =
     (let (v0, v1) = (if vertex_y v0 > vertex_y v1 then (v1, v0) else (v0, v1));
          (v1, v2) = (if vertex_y v1 > vertex_y v2 then (v2, v1) else (v1, v2));
          (v0, v1) = (if vertex_y v0 > vertex_y v1 then (v1, v0) else (v0, v1))
      in (v0, v1, v2))"

text \<open>\<^verbatim>\<open>float inv_slope = 0; if (dy != 0) inv_slope = (float)dx / abs(dy);\<close>\<close>

definition inv_slope :: "int \<Rightarrow> int \<Rightarrow> c_float" where
  "inv_slope dx dy = (if dy \<noteq> 0 then of_int dx / of_int \<bar>dy\<bar> else 0)"

text \<open>The bounds of one scanline (lines 136-141): \<^verbatim>\<open>x_start\<close> and \<^verbatim>\<open>x_end\<close>, exchanged when
  \<^verbatim>\<open>x_end < x_start\<close>.\<close>

definition scan_bounds :: "int \<Rightarrow> int \<Rightarrow> int \<Rightarrow> int \<Rightarrow> c_float \<Rightarrow> c_float \<Rightarrow> int \<Rightarrow> int \<times> int" where
  "scan_bounds x0 y0 x1 y1 inv_slope_1 inv_slope_2 y =
     (let x_start = c_int_of_float (of_int x1 + of_int (y - y1) * inv_slope_1);
          x_end = c_int_of_float (of_int x0 + of_int (y - y0) * inv_slope_2)
      in if x_end < x_start then (x_end, x_start) else (x_start, x_end))"

text \<open>The inner loop \<^verbatim>\<open>for (int x = x_start; x < x_end; x++)\<close>, with the pixel routine it calls
  as the parameter \<open>pix\<close>.\<close>

function scan_x :: "(int \<Rightarrow> int \<Rightarrow> 's \<Rightarrow> 's) \<Rightarrow> int \<Rightarrow> int \<Rightarrow> int \<Rightarrow> 's \<Rightarrow> 's" where
  "scan_x pix y x x_end s = (if x < x_end then scan_x pix y (x + 1) x_end (pix x y s) else s)"
  by pat_completeness auto
termination
  by (relation "measure (\<lambda>(pix, y, x, x_end, s). nat (x_end - x))") auto

text \<open>The outer loop \<^verbatim>\<open>for (int y = y_first; y <= y_last; y++)\<close>.\<close>

function scan_y ::
  "(int \<Rightarrow> int \<Rightarrow> 's \<Rightarrow> 's) \<Rightarrow> int \<Rightarrow> int \<Rightarrow> int \<Rightarrow> int \<Rightarrow> c_float \<Rightarrow> c_float \<Rightarrow> int \<Rightarrow> int \<Rightarrow> 's \<Rightarrow> 's" where
  "scan_y pix x0 y0 x1 y1 inv_slope_1 inv_slope_2 y y_last s =
     (if y \<le> y_last
      then (let (x_start, x_end) = scan_bounds x0 y0 x1 y1 inv_slope_1 inv_slope_2 y
            in scan_y pix x0 y0 x1 y1 inv_slope_1 inv_slope_2 (y + 1) y_last
                 (scan_x pix y x_start x_end s))
      else s)"
  by pat_completeness auto
termination
  by (relation "measure (\<lambda>(pix, x0, y0, x1, y1, i1, i2, y, y_last, s). nat (y_last + 1 - y))") auto

text \<open>Lines 126-175 of \<^verbatim>\<open>draw_filled_triangle\<close> and lines 293-342 of \<^verbatim>\<open>draw_textured_triangle\<close>
  are the same text but for the pixel routine called in the inner loops, here \<open>pix\<close>: the
  upper (flat-bottom) part, then the lower (flat-top) part.\<close>

definition fill_triangle ::
  "(int \<Rightarrow> int \<Rightarrow> 's \<Rightarrow> 's) \<Rightarrow> int \<Rightarrow> int \<Rightarrow> int \<Rightarrow> int \<Rightarrow> int \<Rightarrow> int \<Rightarrow> 's \<Rightarrow> 's" where
  "fill_triangle pix x0 y0 x1 y1 x2 y2 s =
     (let inv_slope_1 = inv_slope (x1 - x0) (y1 - y0);
          inv_slope_2 = inv_slope (x2 - x0) (y2 - y0);
          s = (if y1 - y0 \<noteq> 0
               then scan_y pix x0 y0 x1 y1 inv_slope_1 inv_slope_2 y0 y1 s
               else s);
          inv_slope_1 = inv_slope (x2 - x1) (y2 - y1);
          inv_slope_2 = inv_slope (x2 - x0) (y2 - y0)
      in if y2 - y1 \<noteq> 0
         then scan_y pix x0 y0 x1 y1 inv_slope_1 inv_slope_2 y1 y2 s
         else s)"

definition draw_filled_triangle ::
  "'s display \<Rightarrow> int \<Rightarrow> int \<Rightarrow> c_float \<Rightarrow> c_float \<Rightarrow> int \<Rightarrow> int \<Rightarrow> c_float \<Rightarrow> c_float \<Rightarrow>
     int \<Rightarrow> int \<Rightarrow> c_float \<Rightarrow> c_float \<Rightarrow> color_t \<Rightarrow> 's \<Rightarrow> 's" where
  "draw_filled_triangle D x0 y0 z0 w0 x1 y1 z1 w1 x2 y2 z2 w2 color s =
     (case sort_vertices (x0, y0, z0, w0) (x1, y1, z1, w1) (x2, y2, z2, w2) of
        ((x0, y0, z0, w0), (x1, y1, z1, w1), (x2, y2, z2, w2)) \<Rightarrow>
          (let point_a = \<lparr>vec4_x = of_int x0, vec4_y = of_int y0, vec4_z = z0, vec4_w = w0\<rparr>;
               point_b = \<lparr>vec4_x = of_int x1, vec4_y = of_int y1, vec4_z = z1, vec4_w = w1\<rparr>;
               point_c = \<lparr>vec4_x = of_int x2, vec4_y = of_int y2, vec4_z = z2, vec4_w = w2\<rparr>
           in fill_triangle (\<lambda>x y. draw_triangle_pixel D x y color point_a point_b point_c)
                x0 y0 x1 y1 x2 y2 s))"

definition draw_textured_triangle ::
  "'s display \<Rightarrow> int \<Rightarrow> int \<Rightarrow> c_float \<Rightarrow> c_float \<Rightarrow> c_float \<Rightarrow> c_float \<Rightarrow>
     int \<Rightarrow> int \<Rightarrow> c_float \<Rightarrow> c_float \<Rightarrow> c_float \<Rightarrow> c_float \<Rightarrow>
     int \<Rightarrow> int \<Rightarrow> c_float \<Rightarrow> c_float \<Rightarrow> c_float \<Rightarrow> c_float \<Rightarrow> upng_t \<Rightarrow> 's \<Rightarrow> 's" where
  "draw_textured_triangle D x0 y0 z0 w0 u0 v0 x1 y1 z1 w1 u1 v1 x2 y2 z2 w2 u2 v2 texture s =
     (case sort_vertices (x0, y0, z0, w0, u0, v0) (x1, y1, z1, w1, u1, v1) (x2, y2, z2, w2, u2, v2) of
        ((x0, y0, z0, w0, u0, v0), (x1, y1, z1, w1, u1, v1), (x2, y2, z2, w2, u2, v2)) \<Rightarrow>
          (let v0 = 1 - v0;
               v1 = 1 - v1;
               v2 = 1 - v2;
               point_a = \<lparr>vec4_x = of_int x0, vec4_y = of_int y0, vec4_z = z0, vec4_w = w0\<rparr>;
               point_b = \<lparr>vec4_x = of_int x1, vec4_y = of_int y1, vec4_z = z1, vec4_w = w1\<rparr>;
               point_c = \<lparr>vec4_x = of_int x2, vec4_y = of_int y2, vec4_z = z2, vec4_w = w2\<rparr>;
               a_uv = \<lparr>tex_u = u0, tex_v = v0\<rparr>;
               b_uv = \<lparr>tex_u = u1, tex_v = v1\<rparr>;
               c_uv = \<lparr>tex_u = u2, tex_v = v2\<rparr>
           in fill_triangle (\<lambda>x y. draw_texel D x y texture point_a point_b point_c a_uv b_uv c_uv)
                x0 y0 x1 y1 x2 y2 s))"

subsection \<open>Observing a run of the rasterizer\<close>

text \<open>The calls a run makes to the display, in order. \<open>recording D\<close> behaves as \<open>D\<close> and
  appends each \<^verbatim>\<open>draw_pixel\<close> and \<^verbatim>\<open>set_zbuffer_at\<close> call, with its arguments, to a log kept
  beside the state of \<open>D\<close>; \<^verbatim>\<open>get_zbuffer_at\<close> reads the state of \<open>D\<close>.\<close>

datatype display_call = Draw_pixel int int color_t | Set_zbuffer_at int int c_float

definition recording :: "'s display \<Rightarrow> ('s \<times> display_call list) display" where
  "recording D =
     \<lparr>draw_pixel = (\<lambda>x y c. \<lambda>(s, calls). (draw_pixel D x y c s, calls @ [Draw_pixel x y c])),
      get_zbuffer_at = (\<lambda>x y. \<lambda>(s, calls). get_zbuffer_at D x y s),
      set_zbuffer_at = (\<lambda>x y d. \<lambda>(s, calls). (set_zbuffer_at D x y d s, calls @ [Set_zbuffer_at x y d]))\<rparr>"

definition calls_of :: "('s \<times> display_call list \<Rightarrow> 's \<times> display_call list) \<Rightarrow> 's \<Rightarrow> display_call list" where
  "calls_of run s = snd (run (s, []))"

text \<open>The pixels the scan loops hand to the pixel routine, in order: the loops run with a
  pixel routine that only notes its position.\<close>

definition note_pixel :: "int \<Rightarrow> int \<Rightarrow> (int \<times> int) list \<Rightarrow> (int \<times> int) list" where
  "note_pixel x y ps = ps @ [(x, y)]"

definition visited_pixels :: "int \<Rightarrow> int \<Rightarrow> int \<Rightarrow> int \<Rightarrow> int \<Rightarrow> int \<Rightarrow> (int \<times> int) list" where
  "visited_pixels x0 y0 x1 y1 x2 y2 = fill_triangle note_pixel x0 y0 x1 y1 x2 y2 []"

subsection \<open>The specification's formulas\<close>

text \<open>The 2D cross product, in the convention of \<open>area_abc = cross(b-a, c-a)\<close>.\<close>

definition cross2 :: "vec2_t \<Rightarrow> vec2_t \<Rightarrow> c_float" where
  "cross2 u v = vec2_x u * vec2_y v - vec2_y u * vec2_x v"

text \<open>The weights as the specification writes them.\<close>

definition barycentric_spec :: "vec2_t \<Rightarrow> vec2_t \<Rightarrow> vec2_t \<Rightarrow> vec2_t \<Rightarrow> vec3_t" where
  "barycentric_spec a b c p =
     (let area_abc = cross2 (vec2_sub b a) (vec2_sub c a);
          alpha = cross2 (vec2_sub c b) (vec2_sub p b) / area_abc;
          beta = cross2 (vec2_sub c a) (vec2_sub p a) / area_abc;
          gamma = 1 - alpha - beta
      in \<lparr>vec3_x = alpha, vec3_y = beta, vec3_z = gamma\<rparr>)"

text \<open>The weights of the pixel \<open>(x, y)\<close> in the triangle of three projected vertices, and the
  specification's \<open>inv_w\<close>, \<open>u\<close>, \<open>v\<close> and \<open>depth_metric\<close> there.\<close>

definition pixel_weights :: "vec4_t \<Rightarrow> vec4_t \<Rightarrow> vec4_t \<Rightarrow> int \<Rightarrow> int \<Rightarrow> vec3_t" where
  "pixel_weights pa pb pc x y =
     barycentric_weights (vec2_from_vec4 pa) (vec2_from_vec4 pb) (vec2_from_vec4 pc)
       \<lparr>vec2_x = of_int x, vec2_y = of_int y\<rparr>"

definition inv_w :: "vec4_t \<Rightarrow> vec4_t \<Rightarrow> vec4_t \<Rightarrow> int \<Rightarrow> int \<Rightarrow> c_float" where
  "inv_w pa pb pc x y =
     (let k = pixel_weights pa pb pc x y
      in vec3_x k * (1 / vec4_w pa) + vec3_y k * (1 / vec4_w pb) + vec3_z k * (1 / vec4_w pc))"

definition depth_metric :: "vec4_t \<Rightarrow> vec4_t \<Rightarrow> vec4_t \<Rightarrow> int \<Rightarrow> int \<Rightarrow> c_float" where
  "depth_metric pa pb pc x y = 1 - inv_w pa pb pc x y"

definition persp_u :: "vec4_t \<Rightarrow> vec4_t \<Rightarrow> vec4_t \<Rightarrow> tex2_t \<Rightarrow> tex2_t \<Rightarrow> tex2_t \<Rightarrow> int \<Rightarrow> int \<Rightarrow> c_float" where
  "persp_u pa pb pc a_uv b_uv c_uv x y =
     (let k = pixel_weights pa pb pc x y
      in (vec3_x k * (tex_u a_uv / vec4_w pa) + vec3_y k * (tex_u b_uv / vec4_w pb) +
          vec3_z k * (tex_u c_uv / vec4_w pc)) / inv_w pa pb pc x y)"

definition persp_v :: "vec4_t \<Rightarrow> vec4_t \<Rightarrow> vec4_t \<Rightarrow> tex2_t \<Rightarrow> tex2_t \<Rightarrow> tex2_t \<Rightarrow> int \<Rightarrow> int \<Rightarrow> c_float" where
  "persp_v pa pb pc a_uv b_uv c_uv x y =
     (let k = pixel_weights pa pb pc x y
      in (vec3_x k * (tex_v a_uv / vec4_w pa) + vec3_y k * (tex_v b_uv / vec4_w pb) +
          vec3_z k * (tex_v c_uv / vec4_w pc)) / inv_w pa pb pc x y)"

text \<open>The interpolated \<open>u\<close> and \<open>v\<close> of the pixel are finite floats: no division that produces
  them has a zero divisor (the three \<open>w\<close>, the area of the triangle, the interpolated \<open>1/w\<close>).\<close>

definition finite_uv :: "vec4_t \<Rightarrow> vec4_t \<Rightarrow> vec4_t \<Rightarrow> int \<Rightarrow> int \<Rightarrow> bool" where
  "finite_uv pa pb pc x y \<longleftrightarrow>
     vec4_w pa \<noteq> 0 \<and> vec4_w pb \<noteq> 0 \<and> vec4_w pc \<noteq> 0 \<and>
     cross2 (vec2_sub (vec2_from_vec4 pb) (vec2_from_vec4 pa))
            (vec2_sub (vec2_from_vec4 pc) (vec2_from_vec4 pa)) \<noteq> 0 \<and>
     inv_w pa pb pc x y \<noteq> 0"

text \<open>A texel coordinate as the specification writes it, \<open>|floor(t * n)| mod n\<close>, and with
  the absolute value taken before the floor, \<open>floor(|t * n|) mod n\<close>.\<close>

definition texel_floor_abs :: "c_float \<Rightarrow> int \<Rightarrow> int" where
  "texel_floor_abs t n = \<bar>\<lfloor>t * of_int n\<rfloor>\<bar> mod n"

definition texel_abs_floor :: "c_float \<Rightarrow> int \<Rightarrow> int" where
  "texel_abs_floor t n = \<lfloor>\<bar>t * of_int n\<bar>\<rfloor> mod n"

text \<open>The pixels of one scanline, left to right: every integer \<open>x\<close> of \<open>[x_start, x_end)\<close>.\<close>

definition row_pixels :: "int \<times> int \<Rightarrow> int \<Rightarrow> (int \<times> int) list" where
  "row_pixels bounds y = map (\<lambda>x. (x, y)) [fst bounds..snd bounds - 1]"

text \<open>The scanlines of the upper part, \<open>y0\<close> to \<open>y1\<close> inclusive, and of the lower part, \<open>y1\<close>
  to \<open>y2\<close> inclusive.\<close>

definition upper_row :: "int \<Rightarrow> int \<Rightarrow> int \<Rightarrow> int \<Rightarrow> int \<Rightarrow> int \<Rightarrow> int \<Rightarrow> (int \<times> int) list" where
  "upper_row x0 y0 x1 y1 x2 y2 y =
     row_pixels (scan_bounds x0 y0 x1 y1 (inv_slope (x1 - x0) (y1 - y0)) (inv_slope (x2 - x0) (y2 - y0)) y) y"

definition lower_row :: "int \<Rightarrow> int \<Rightarrow> int \<Rightarrow> int \<Rightarrow> int \<Rightarrow> int \<Rightarrow> int \<Rightarrow> (int \<times> int) list" where
  "lower_row x0 y0 x1 y1 x2 y2 y =
     row_pixels (scan_bounds x0 y0 x1 y1 (inv_slope (x2 - x1) (y2 - y1)) (inv_slope (x2 - x0) (y2 - y0)) y) y"

text \<open>The pixels of the whole scan: the rows of the upper part when \<open>y1 \<noteq> y0\<close>, then the rows
  of the lower part when \<open>y2 \<noteq> y1\<close>.\<close>

definition scan_pixels :: "int \<Rightarrow> int \<Rightarrow> int \<Rightarrow> int \<Rightarrow> int \<Rightarrow> int \<Rightarrow> (int \<times> int) list" where
  "scan_pixels x0 y0 x1 y1 x2 y2 =
     (if y1 - y0 \<noteq> 0 then concat (map (upper_row x0 y0 x1 y1 x2 y2) [y0..y1]) else []) @
     (if y2 - y1 \<noteq> 0 then concat (map (lower_row x0 y0 x1 y1 x2 y2) [y1..y2]) else [])"

text \<open>A pixel routine applied to a list of pixels, first to last.\<close>

definition run_pixels :: "(int \<Rightarrow> int \<Rightarrow> 's \<Rightarrow> 's) \<Rightarrow> (int \<times> int) list \<Rightarrow> 's \<Rightarrow> 's" where
  "run_pixels pix ps s = foldl (\<lambda>s p. pix (fst p) (snd p) s) s ps"

text \<open>The color \<^verbatim>\<open>draw_texel\<close> hands to \<^verbatim>\<open>draw_pixel\<close> (lines 226-227 and 237-239), from the
  perspective-correct \<open>u\<close> and \<open>v\<close> of the pixel.\<close>

definition texel_color ::
  "upng_t \<Rightarrow> vec4_t \<Rightarrow> vec4_t \<Rightarrow> vec4_t \<Rightarrow> tex2_t \<Rightarrow> tex2_t \<Rightarrow> tex2_t \<Rightarrow> int \<Rightarrow> int \<Rightarrow> color_t" where
  "texel_color texture pa pb pc a_uv b_uv c_uv x y =
     (let texture_width = upng_get_width texture;
          texture_height = upng_get_height texture;
          tex_x = c_abs (c_int_of_float (persp_u pa pb pc a_uv b_uv c_uv x y * of_int texture_width))
                    smod texture_width;
          tex_y = c_abs (c_int_of_float (persp_v pa pb pc a_uv b_uv c_uv x y * of_int texture_height))
                    smod texture_height
      in upng_get_buffer texture ((texture_width * tex_y) + tex_x))"

subsection \<open>A concrete display and concrete inputs\<close>

text \<open>Modelled from the spec: a frame buffer sink and a depth buffer (display.c is absent) that
  hold one color and one float per pixel; the depth buffer of a cleared frame holds 1.0
  everywhere. Used for the runs on concrete inputs only.\<close>

record buffers =
  color_buffer :: "int \<times> int \<Rightarrow> color_t"
  z_buffer :: "int \<times> int \<Rightarrow> c_float"

definition plain_display :: "buffers display" where
  "plain_display =
     \<lparr>draw_pixel = (\<lambda>x y c s. s\<lparr>color_buffer := (color_buffer s)((x, y) := c)\<rparr>),
      get_zbuffer_at = (\<lambda>x y s. z_buffer s (x, y)),
      set_zbuffer_at = (\<lambda>x y d s. s\<lparr>z_buffer := (z_buffer s)((x, y) := d)\<rparr>)\<rparr>"

definition cleared :: buffers where
  "cleared = \<lparr>color_buffer = (\<lambda>p. 0), z_buffer = (\<lambda>p. 1)\<rparr>"

text \<open>A 2x2 texture whose texel number \<open>i\<close> has the color \<open>i\<close>, and a vertex at \<open>(x, y)\<close>
  with \<open>z = 0\<close> and \<open>w = 1\<close>.\<close>

definition numbered_2x2 :: upng_t where
  "numbered_2x2 = \<lparr>upng_get_width = 2, upng_get_height = 2, upng_get_buffer = of_int\<rparr>"

definition screen_point :: "int \<Rightarrow> int \<Rightarrow> vec4_t" where
  "screen_point x y = \<lparr>vec4_x = of_int x, vec4_y = of_int y, vec4_z = 0, vec4_w = 1\<rparr>"

definition uv_point :: "c_float \<Rightarrow> c_float \<Rightarrow> tex2_t" where
  "uv_point u v = \<lparr>tex_u = u, tex_v = v\<rparr>"

definition vec2 :: "c_float \<Rightarrow> c_float \<Rightarrow> vec2_t" where
  "vec2 x y = \<lparr>vec2_x = x, vec2_y = y\<rparr>"

section \<open>Properties of the transform algebra\<close>

lemma idx4_cases: "(i::4) = 0 \<or> i = 1 \<or> i = 2 \<or> i = 3"
proof (cases i)
  case (of_int z)
  then have "z = 0 \<or> z = 1 \<or> z = 2 \<or> z = 3" by auto
  with of_int show ?thesis by auto
qed

lemma forall_idx4: "(\<forall>i::4. P i) \<longleftrightarrow> P 0 \<and> P 1 \<and> P 2 \<and> P 3"
  using idx4_cases by metis

lemma mat4_eqI: "(\<And>i j. a i j = b i j) \<Longrightarrow> (a::mat4_t) = b"
  by (intro ext)

lemmas mat4_entry_simps = mat4_set_def mat4_row_def mat4_rows_def mat4_identity_def

text \<open>
  C4. For all arguments, the matrix that \<^verbatim>\<open>mat4_make_perspective\<close> returns is the matrix of the
  specification: \<open>m[0][0] = aspect_ratio / tan(fov_y/2)\<close>, \<open>m[1][1] = 1 / tan(fov_y/2)\<close>,
  \<open>m[2][2] = z_far / (z_far - z_near)\<close>, \<open>m[2][3] = - z_far * z_near / (z_far - z_near)\<close>,
  \<open>m[3][2] = 1\<close> and every other entry zero.
\<close>

theorem perspective_entries:
  "mat4_make_perspective fov_y aspect_ratio z_near z_far =
     perspective_spec fov_y aspect_ratio z_near z_far"
proof (rule mat4_eqI)
  fix i j :: 4
  show "mat4_make_perspective fov_y aspect_ratio z_near z_far i j =
        perspective_spec fov_y aspect_ratio z_near z_far i j"
    using idx4_cases [of i] idx4_cases [of j]
    by (auto simp add: mat4_make_perspective_def perspective_spec_def mat4_entry_simps Let_def)
qed

text \<open>
  C5. \<^verbatim>\<open>mat4_mul_vec4_project\<close> computes \<open>r = mat4_mul_vec4 P v\<close>; when \<open>r.w\<close> is not zero it
  returns \<open>r\<close> with \<open>x\<close>, \<open>y\<close> and \<open>z\<close> divided by \<open>r.w\<close> and \<open>w\<close> unchanged, and when \<open>r.w\<close> is zero
  it returns \<open>r\<close> itself. It is a total function: there is no error result.
\<close>

theorem project_divides_unless_w_zero:
  "mat4_mul_vec4_project P v =
     (let r = mat4_mul_vec4 P v
      in if vec4_w r \<noteq> 0
         then \<lparr>vec4_x = vec4_x r / vec4_w r, vec4_y = vec4_y r / vec4_w r,
               vec4_z = vec4_z r / vec4_w r, vec4_w = vec4_w r\<rparr>
         else r)"
  by (simp add: mat4_mul_vec4_project_def Let_def)

text \<open>
  C7. The bottom row of the identity, scale, translation, the three rotation matrices and the
  look-at matrix is \<open>[0, 0, 0, 1]\<close> for all arguments; the bottom row of the perspective matrix is
  \<open>[0, 0, 1, 0]\<close>.
\<close>

theorem bottom_rows:
  "bottom_row mat4_identity = [0, 0, 0, 1] \<and>
   bottom_row (mat4_make_scale sx sy sz) = [0, 0, 0, 1] \<and>
   bottom_row (mat4_make_translation tx ty tz) = [0, 0, 0, 1] \<and>
   bottom_row (mat4_make_rotation_x angle) = [0, 0, 0, 1] \<and>
   bottom_row (mat4_make_rotation_y angle) = [0, 0, 0, 1] \<and>
   bottom_row (mat4_make_rotation_z angle) = [0, 0, 0, 1] \<and>
   bottom_row (mat4_look_at eye target up) = [0, 0, 0, 1] \<and>
   bottom_row (mat4_make_perspective fov aspect_ratio znear zfar) = [0, 0, 1, 0]"
  by (simp add: bottom_row_def mat4_make_scale_def mat4_make_translation_def
      mat4_make_rotation_x_def mat4_make_rotation_y_def mat4_make_rotation_z_def
      mat4_look_at_def mat4_make_perspective_def mat4_entry_simps Let_def)

text \<open>With exact arithmetic on finite values the identity matrix is neutral.\<close>

lemma identity_neutral_exact:
  "mat4_mul_vec4 mat4_identity v = v \<and>
   mat4_mul_mat4 A mat4_identity = A \<and>
   mat4_mul_mat4 mat4_identity A = A"
proof (intro conjI)
  show "mat4_mul_vec4 mat4_identity v = v"
    by (simp add: mat4_mul_vec4_def mat4_entry_simps)
  show "mat4_mul_mat4 A mat4_identity = A"
  proof (rule mat4_eqI)
    fix i j :: 4
    show "mat4_mul_mat4 A mat4_identity i j = A i j"
      using idx4_cases [of j] by (auto simp add: mat4_mul_mat4_def mat4_entry_simps)
  qed
  show "mat4_mul_mat4 mat4_identity A = A"
  proof (rule mat4_eqI)
    fix i j :: 4
    show "mat4_mul_mat4 mat4_identity A i j = A i j"
      using idx4_cases [of i] by (auto simp add: mat4_mul_mat4_def mat4_entry_simps)
  qed
qed

text \<open>On finite components the products over \<open>ieee\<close> are the exact ones.\<close>

lemma mat4_mul_vec4_finite:
  "mat4_mul_vec4_ieee (ieee_of_mat4 a) (ieee_of_vec4 v) = ieee_of_vec4 (mat4_mul_vec4 a v)"
  by (simp add: mat4_mul_vec4_ieee_def ieee_of_mat4_def ieee_of_vec4_def mat4_mul_vec4_def)

lemma mat4_mul_mat4_finite:
  "mat4_mul_mat4_ieee (ieee_of_mat4 a) (ieee_of_mat4 b) = ieee_of_mat4 (mat4_mul_mat4 a b)"
  by (simp add: mat4_mul_mat4_ieee_def ieee_of_mat4_def mat4_mul_mat4_def)

text \<open>
  C8 (as stated). The vector \<open>(+infinity, 1, 1, 1)\<close>: each of the rows 1 to 3 of the identity
  matrix multiplies the infinite \<open>x\<close> by 0, which is NaN, so that
  \<open>mat4_mul_vec4 (mat4_identity) v\<close> is \<open>(+infinity, NaN, NaN, NaN)\<close> and not \<open>v\<close>.
\<close>

theorem identity_infinity_counterexample:
  "mat4_mul_vec4_ieee mat4_identity_ieee
     \<lparr>ieee_x = Infinity True, ieee_y = Finite 1, ieee_z = Finite 1, ieee_w = Finite 1\<rparr> =
   \<lparr>ieee_x = Infinity True, ieee_y = NaN, ieee_z = NaN, ieee_w = NaN\<rparr>"
  by (simp add: mat4_mul_vec4_ieee_def mat4_identity_ieee_def ieee_of_mat4_def mat4_entry_simps)

text \<open>
  C8 (amended). The identity matrix is neutral on finite values: for every vector \<open>v\<close> of finite
  components \<open>mat4_mul_vec4 (mat4_identity) v = v\<close>, and for every matrix \<open>A\<close> of finite entries
  \<open>mat4_mul_mat4 A (mat4_identity) = A\<close> and \<open>mat4_mul_mat4 (mat4_identity) A = A\<close>.
\<close>

theorem identity_neutral_finite:
  "mat4_mul_vec4_ieee mat4_identity_ieee (ieee_of_vec4 v) = ieee_of_vec4 v \<and>
   mat4_mul_mat4_ieee (ieee_of_mat4 A) mat4_identity_ieee = ieee_of_mat4 A \<and>
   mat4_mul_mat4_ieee mat4_identity_ieee (ieee_of_mat4 A) = ieee_of_mat4 A"
  unfolding mat4_identity_ieee_def mat4_mul_vec4_finite mat4_mul_mat4_finite
  by (simp add: identity_neutral_exact)

section \<open>Properties of the rasterizer\<close>

subsection \<open>Barycentric weights\<close>

text \<open>
  C1 (as stated). At \<open>a = (0,0)\<close>, \<open>b = (1,0)\<close>, \<open>c = (0,1)\<close> and \<open>p = b\<close> the code returns
  \<open>beta = 1\<close>, and the specification's formula \<open>cross(c-a, p-a) / area_abc\<close> gives \<open>-1\<close>.
\<close>

theorem barycentric_beta_counterexample:
  "vec3_y (barycentric_weights (vec2 0 0) (vec2 1 0) (vec2 0 1) (vec2 1 0)) = 1 \<and>
   vec3_y (barycentric_spec (vec2 0 0) (vec2 1 0) (vec2 0 1) (vec2 1 0)) = - 1"
  by (simp add: barycentric_weights_def barycentric_spec_def cross2_def vec2_sub_def vec2_def)

text \<open>
  C1 (amended). \<^verbatim>\<open>barycentric_weights\<close> returns \<open>alpha = cross(c-b, p-b) / area_abc\<close>,
  \<open>beta = cross(p-a, c-a) / area_abc\<close> (the operands in the other order: the negation of the
  specification's \<open>cross(c-a, p-a)\<close>) and \<open>gamma = 1 - alpha - beta\<close>, with
  \<open>area_abc = cross(b-a, c-a)\<close>.
\<close>

theorem barycentric_weights_formulas:
  "barycentric_weights a b c p =
     (let area_abc = cross2 (vec2_sub b a) (vec2_sub c a);
          alpha = cross2 (vec2_sub c b) (vec2_sub p b) / area_abc;
          beta = cross2 (vec2_sub p a) (vec2_sub c a) / area_abc;
          gamma = 1 - alpha - beta
      in \<lparr>vec3_x = alpha, vec3_y = beta, vec3_z = gamma\<rparr>)"
  by (simp add: barycentric_weights_def cross2_def Let_def mult.commute)

subsection \<open>The depth test\<close>

lemma draw_triangle_pixel_fn:
  "draw_triangle_pixel D x y color pa pb pc =
     (\<lambda>s. if depth_metric pa pb pc x y < get_zbuffer_at D x y s
          then set_zbuffer_at D x y (depth_metric pa pb pc x y) (draw_pixel D x y color s)
          else s)"
  by (rule ext)
    (simp add: draw_triangle_pixel_def depth_metric_def inv_w_def pixel_weights_def Let_def
      mult.commute)

lemma draw_texel_fn:
  "draw_texel D x y texture pa pb pc a_uv b_uv c_uv =
     (\<lambda>s. if depth_metric pa pb pc x y < get_zbuffer_at D x y s
          then set_zbuffer_at D x y (depth_metric pa pb pc x y)
                 (draw_pixel D x y (texel_color texture pa pb pc a_uv b_uv c_uv x y) s)
          else s)"
  by (rule ext)
    (simp add: draw_texel_def depth_metric_def inv_w_def pixel_weights_def persp_u_def
      persp_v_def texel_color_def Let_def mult.commute)

lemma recording_simps:
  "draw_pixel (recording D) x y c (s, calls) = (draw_pixel D x y c s, calls @ [Draw_pixel x y c])"
  "get_zbuffer_at (recording D) x y (s, calls) = get_zbuffer_at D x y s"
  "set_zbuffer_at (recording D) x y d (s, calls) =
     (set_zbuffer_at D x y d s, calls @ [Set_zbuffer_at x y d])"
  by (simp_all add: recording_def)

text \<open>
  C2. In \<^verbatim>\<open>draw_triangle_pixel\<close> and in \<^verbatim>\<open>draw_texel\<close> the depth metric is 1 minus the
  interpolated \<open>1/w\<close>. When it is strictly less than \<open>get_zbuffer_at(x, y)\<close> the run calls
  \<^verbatim>\<open>draw_pixel\<close> and then \<^verbatim>\<open>set_zbuffer_at\<close> with the depth metric, and nothing else; otherwise
  it makes no call and returns the state unchanged.
\<close>

theorem depth_test_guards_pixel_and_zbuffer:
  "draw_triangle_pixel D x y color pa pb pc s =
     (if depth_metric pa pb pc x y < get_zbuffer_at D x y s
      then set_zbuffer_at D x y (depth_metric pa pb pc x y) (draw_pixel D x y color s)
      else s) \<and>
   calls_of (draw_triangle_pixel (recording D) x y color pa pb pc) s =
     (if depth_metric pa pb pc x y < get_zbuffer_at D x y s
      then [Draw_pixel x y color, Set_zbuffer_at x y (depth_metric pa pb pc x y)]
      else []) \<and>
   draw_texel D x y texture pa pb pc a_uv b_uv c_uv s =
     (if depth_metric pa pb pc x y < get_zbuffer_at D x y s
      then set_zbuffer_at D x y (depth_metric pa pb pc x y)
             (draw_pixel D x y (texel_color texture pa pb pc a_uv b_uv c_uv x y) s)
      else s) \<and>
   calls_of (draw_texel (recording D) x y texture pa pb pc a_uv b_uv c_uv) s =
     (if depth_metric pa pb pc x y < get_zbuffer_at D x y s
      then [Draw_pixel x y (texel_color texture pa pb pc a_uv b_uv c_uv x y),
            Set_zbuffer_at x y (depth_metric pa pb pc x y)]
      else []) \<and>
   depth_metric pa pb pc x y = 1 - inv_w pa pb pc x y"
  by (simp add: draw_triangle_pixel_fn draw_texel_fn calls_of_def recording_simps
      depth_metric_def)

subsection \<open>Texel coordinates\<close>

lemma abs_c_int_of_float:
  assumes "\<bar>r\<bar> < 2 ^ 31"
  shows "c_abs (c_int_of_float r) = \<lfloor>\<bar>r\<bar>\<rfloor>"
proof (cases "0 \<le> r")
  case True
  then have lo: "0 \<le> \<lfloor>r\<rfloor>" by simp
  from assms True have "r < of_int (2 ^ 31)" by simp
  then have hi: "\<lfloor>r\<rfloor> < 2 ^ 31" by (simp only: floor_less_iff)
  from lo hi True show ?thesis
    by (simp add: c_int_of_float_def c_abs_def)
next
  case False
  then have hi: "\<lceil>r\<rceil> \<le> 0" by (simp add: ceiling_le_iff)
  from assms False have "of_int (- (2 ^ 31)) < r" by simp
  then have lo: "- (2 ^ 31) < \<lceil>r\<rceil>" by (simp only: less_ceiling_iff)
  from lo hi have rng: "- (2 ^ 31) \<le> \<lceil>r\<rceil>" "\<lceil>r\<rceil> < 2 ^ 31" and ne: "\<lceil>r\<rceil> \<noteq> - (2 ^ 31)"
    by linarith+
  have "c_int_of_float r = \<lceil>r\<rceil>"
    unfolding c_int_of_float_def Let_def using False rng
    by (simp only: if_False if_True simp_thms)
  moreover have "c_abs \<lceil>r\<rceil> = \<bar>\<lceil>r\<rceil>\<bar>"
    unfolding c_abs_def using ne by (simp only: if_False)
  moreover have "\<bar>\<lceil>r\<rceil>\<bar> = - \<lceil>r\<rceil>"
    using hi by simp
  moreover have "- \<lceil>r\<rceil> = \<lfloor>- r\<rfloor>"
    by (simp add: ceiling_def)
  moreover have "\<bar>r\<bar> = - r"
    using False by simp
  ultimately show ?thesis
    by simp
qed

lemma smod_nonneg: "0 \<le> a \<Longrightarrow> 0 < n \<Longrightarrow> a smod n = a mod (n::int)"
  by (simp add: signed_modulo_int_def sgn_if)

lemma texel_coordinate:
  "0 < n \<Longrightarrow> \<bar>p\<bar> < 2 ^ 31 \<Longrightarrow> c_abs (c_int_of_float p) smod n = \<lfloor>\<bar>p\<bar>\<rfloor> mod n"
  by (simp add: abs_c_int_of_float smod_nonneg)

text \<open>Outside the range of \<^verbatim>\<open>int\<close> the coordinate does not wrap into the texture: the product
  \<open>2^31\<close> gives \<^verbatim>\<open>INT_MIN\<close>, and the coordinate -2 in a texture of width 3.\<close>

lemma texel_cast_overflow: "c_abs (c_int_of_float (2 ^ 31)) smod 3 = - 2"
  by (simp add: c_int_of_float_def c_abs_def signed_modulo_int_def)

lemma corner_weights:
  "pixel_weights (screen_point 0 0) (screen_point 4 0) (screen_point 0 4) 0 0 =
     \<lparr>vec3_x = 1, vec3_y = 0, vec3_z = 0\<rparr>"
  by (simp add: pixel_weights_def screen_point_def vec2_from_vec4_def barycentric_weights_def
      vec2_sub_def)

lemma corner_inv_w: "inv_w (screen_point 0 0) (screen_point 4 0) (screen_point 0 4) 0 0 = 1"
  by (simp add: inv_w_def corner_weights) (simp add: screen_point_def)

lemma corner_uv:
  "persp_u (screen_point 0 0) (screen_point 4 0) (screen_point 0 4)
     (uv_point u0 v0) (uv_point u1 v1) (uv_point u2 v2) 0 0 = u0"
  "persp_v (screen_point 0 0) (screen_point 4 0) (screen_point 0 4)
     (uv_point u0 v0) (uv_point u1 v1) (uv_point u2 v2) 0 0 = v0"
  by (simp_all add: persp_u_def persp_v_def corner_weights corner_inv_w)
    (simp_all add: screen_point_def uv_point_def)

lemma texel_color_abs_floor:
  assumes "0 < upng_get_width texture" and "0 < upng_get_height texture"
    and "\<bar>persp_u pa pb pc a_uv b_uv c_uv x y * of_int (upng_get_width texture)\<bar> < 2 ^ 31"
    and "\<bar>persp_v pa pb pc a_uv b_uv c_uv x y * of_int (upng_get_height texture)\<bar> < 2 ^ 31"
  shows "texel_color texture pa pb pc a_uv b_uv c_uv x y =
      upng_get_buffer texture
        (upng_get_width texture *
           texel_abs_floor (persp_v pa pb pc a_uv b_uv c_uv x y) (upng_get_height texture) +
         texel_abs_floor (persp_u pa pb pc a_uv b_uv c_uv x y) (upng_get_width texture))"
  using assms by (simp add: texel_color_def texel_coordinate texel_abs_floor_def Let_def)

lemma numbered_2x2_simps:
  "upng_get_width numbered_2x2 = 2" "upng_get_height numbered_2x2 = 2"
  "upng_get_buffer numbered_2x2 i = of_int i"
  by (simp_all add: numbered_2x2_def)

lemma corner_depth:
  "depth_metric (screen_point 0 0) (screen_point 4 0) (screen_point 0 4) 0 0 = 0"
  by (simp add: depth_metric_def corner_inv_w)

text \<open>
  C3 (as stated). A texel with \<open>u = v = -1/4\<close> in a 2x2 texture: \<open>u * texture_width = -1/2\<close>, which
  the cast \<^verbatim>\<open>(int)\<close> truncates to 0, so that the code reads texel \<open>(0, 0)\<close>, number 0, where
  \<open>|floor(-1/2)| mod 2 = 1\<close> in both coordinates is texel number 3.
\<close>

theorem texel_floor_counterexample:
  "calls_of (draw_texel (recording plain_display) 0 0 numbered_2x2
       (screen_point 0 0) (screen_point 4 0) (screen_point 0 4)
       (uv_point (- 1 / 4) (- 1 / 4)) (uv_point (- 1 / 4) (- 1 / 4)) (uv_point (- 1 / 4) (- 1 / 4)))
     cleared = [Draw_pixel 0 0 0, Set_zbuffer_at 0 0 0] \<and>
   persp_u (screen_point 0 0) (screen_point 4 0) (screen_point 0 4)
     (uv_point (- 1 / 4) (- 1 / 4)) (uv_point (- 1 / 4) (- 1 / 4)) (uv_point (- 1 / 4) (- 1 / 4)) 0 0
     = - 1 / 4 \<and>
   persp_v (screen_point 0 0) (screen_point 4 0) (screen_point 0 4)
     (uv_point (- 1 / 4) (- 1 / 4)) (uv_point (- 1 / 4) (- 1 / 4)) (uv_point (- 1 / 4) (- 1 / 4)) 0 0
     = - 1 / 4 \<and>
   upng_get_buffer numbered_2x2
     (upng_get_width numbered_2x2 * texel_floor_abs (- 1 / 4) (upng_get_height numbered_2x2) +
      texel_floor_abs (- 1 / 4) (upng_get_width numbered_2x2)) = 3"
proof (intro conjI)
  have c: "texel_color numbered_2x2 (screen_point 0 0) (screen_point 4 0) (screen_point 0 4)
       (uv_point (- 1 / 4) (- 1 / 4)) (uv_point (- 1 / 4) (- 1 / 4)) (uv_point (- 1 / 4) (- 1 / 4)) 0 0
     = 0"
    by (simp add: texel_color_abs_floor numbered_2x2_simps corner_uv texel_abs_floor_def)
  show "calls_of (draw_texel (recording plain_display) 0 0 numbered_2x2
       (screen_point 0 0) (screen_point 4 0) (screen_point 0 4)
       (uv_point (- 1 / 4) (- 1 / 4)) (uv_point (- 1 / 4) (- 1 / 4)) (uv_point (- 1 / 4) (- 1 / 4)))
     cleared = [Draw_pixel 0 0 0, Set_zbuffer_at 0 0 0]"
    using c
    by (simp add: draw_texel_fn calls_of_def recording_simps corner_depth plain_display_def
        cleared_def)
  show "upng_get_buffer numbered_2x2
     (upng_get_width numbered_2x2 * texel_floor_abs (- 1 / 4) (upng_get_height numbered_2x2) +
      texel_floor_abs (- 1 / 4) (upng_get_width numbered_2x2)) = 3"
    by (simp add: numbered_2x2_simps texel_floor_abs_def)
qed (simp_all add: corner_uv)

text \<open>
  C3 (amended). For a texture of positive width and height and a pixel whose interpolated \<open>u\<close>
  and \<open>v\<close> are finite with \<open>|u * texture_width| < 2^31\<close> and \<open>|v * texture_height| < 2^31\<close>,
  \<^verbatim>\<open>draw_texel\<close> reads the texel \<open>tex_x = floor(|u * texture_width|) mod texture_width\<close>,
  \<open>tex_y = floor(|v * texture_height|) mod texture_height\<close>: the cast truncates towards zero, so
  the absolute value is the floor of the absolute value of the product (not the absolute value
  of its floor). These coordinates wrap: they lie in \<open>[0, texture_width)\<close> and
  \<open>[0, texture_height)\<close>. The same holds of \<^verbatim>\<open>abs((int)p) % size\<close> for every product \<open>p\<close> with
  \<open>|p| < 2^31\<close>.
\<close>

theorem texel_coordinates_truncate:
  assumes "0 < upng_get_width texture" and "0 < upng_get_height texture"
    and "finite_uv pa pb pc x y"
    and "\<bar>persp_u pa pb pc a_uv b_uv c_uv x y * of_int (upng_get_width texture)\<bar> < 2 ^ 31"
    and "\<bar>persp_v pa pb pc a_uv b_uv c_uv x y * of_int (upng_get_height texture)\<bar> < 2 ^ 31"
  shows "draw_texel D x y texture pa pb pc a_uv b_uv c_uv s =
     (let tex_x = texel_abs_floor (persp_u pa pb pc a_uv b_uv c_uv x y) (upng_get_width texture);
          tex_y = texel_abs_floor (persp_v pa pb pc a_uv b_uv c_uv x y) (upng_get_height texture)
      in if depth_metric pa pb pc x y < get_zbuffer_at D x y s
         then set_zbuffer_at D x y (depth_metric pa pb pc x y)
                (draw_pixel D x y
                   (upng_get_buffer texture (upng_get_width texture * tex_y + tex_x)) s)
         else s) \<and>
    0 \<le> texel_abs_floor (persp_u pa pb pc a_uv b_uv c_uv x y) (upng_get_width texture) \<and>
    texel_abs_floor (persp_u pa pb pc a_uv b_uv c_uv x y) (upng_get_width texture)
      < upng_get_width texture \<and>
    0 \<le> texel_abs_floor (persp_v pa pb pc a_uv b_uv c_uv x y) (upng_get_height texture) \<and>
    texel_abs_floor (persp_v pa pb pc a_uv b_uv c_uv x y) (upng_get_height texture)
      < upng_get_height texture \<and>
    (\<bar>p\<bar> < 2 ^ 31 \<longrightarrow>
       c_abs (c_int_of_float p) smod upng_get_width texture = \<lfloor>\<bar>p\<bar>\<rfloor> mod upng_get_width texture \<and>
       c_abs (c_int_of_float p) smod upng_get_height texture = \<lfloor>\<bar>p\<bar>\<rfloor> mod upng_get_height texture)"
proof (intro conjI impI)
  show "draw_texel D x y texture pa pb pc a_uv b_uv c_uv s =
     (let tex_x = texel_abs_floor (persp_u pa pb pc a_uv b_uv c_uv x y) (upng_get_width texture);
          tex_y = texel_abs_floor (persp_v pa pb pc a_uv b_uv c_uv x y) (upng_get_height texture)
      in if depth_metric pa pb pc x y < get_zbuffer_at D x y s
         then set_zbuffer_at D x y (depth_metric pa pb pc x y)
                (draw_pixel D x y
                   (upng_get_buffer texture (upng_get_width texture * tex_y + tex_x)) s)
         else s)"
    using assms(1,2,4,5) by (simp add: draw_texel_fn texel_color_abs_floor Let_def)
qed (use assms(1,2) in \<open>simp_all add: texel_abs_floor_def texel_coordinate\<close>)

lemma corner_finite_uv: "finite_uv (screen_point 0 0) (screen_point 4 0) (screen_point 0 4) 0 0"
  by (simp add: finite_uv_def corner_inv_w)
    (simp add: screen_point_def vec2_from_vec4_def vec2_sub_def cross2_def)

theorem texel_coordinates_witness:
  "0 < upng_get_width numbered_2x2 \<and> 0 < upng_get_height numbered_2x2 \<and>
   finite_uv (screen_point 0 0) (screen_point 4 0) (screen_point 0 4) 0 0 \<and>
   \<bar>persp_u (screen_point 0 0) (screen_point 4 0) (screen_point 0 4)
      (uv_point (- 1 / 4) (3 / 4)) (uv_point 0 0) (uv_point 0 0) 0 0
      * of_int (upng_get_width numbered_2x2)\<bar> < 2 ^ 31 \<and>
   \<bar>persp_v (screen_point 0 0) (screen_point 4 0) (screen_point 0 4)
      (uv_point (- 1 / 4) (3 / 4)) (uv_point 0 0) (uv_point 0 0) 0 0
      * of_int (upng_get_height numbered_2x2)\<bar> < 2 ^ 31 \<and>
   draw_texel plain_display 0 0 numbered_2x2
       (screen_point 0 0) (screen_point 4 0) (screen_point 0 4)
       (uv_point (- 1 / 4) (3 / 4)) (uv_point 0 0) (uv_point 0 0) cleared =
     set_zbuffer_at plain_display 0 0 0 (draw_pixel plain_display 0 0 2 cleared) \<and>
   texel_abs_floor (- 1 / 4) 2 = 0 \<and> texel_abs_floor (3 / 4) 2 = 1 \<and>
   c_abs (c_int_of_float (- 1 / 2)) smod 2 = 0"
proof -
  have w: "0 < upng_get_width numbered_2x2" and h: "0 < upng_get_height numbered_2x2"
    by (simp_all add: numbered_2x2_simps)
  have u: "\<bar>persp_u (screen_point 0 0) (screen_point 4 0) (screen_point 0 4)
      (uv_point (- 1 / 4) (3 / 4)) (uv_point 0 0) (uv_point 0 0) 0 0
      * of_int (upng_get_width numbered_2x2)\<bar> < 2 ^ 31"
    by (simp add: corner_uv numbered_2x2_simps)
  have v: "\<bar>persp_v (screen_point 0 0) (screen_point 4 0) (screen_point 0 4)
      (uv_point (- 1 / 4) (3 / 4)) (uv_point 0 0) (uv_point 0 0) 0 0
      * of_int (upng_get_height numbered_2x2)\<bar> < 2 ^ 31"
    by (simp add: corner_uv numbered_2x2_simps)
  have z: "get_zbuffer_at plain_display 0 0 cleared = 1"
    by (simp add: plain_display_def cleared_def)
  have t: "texel_abs_floor (- 1 / 4) 2 = 0" "texel_abs_floor (3 / 4) 2 = 1"
    by (simp_all add: texel_abs_floor_def)
  have "draw_texel plain_display 0 0 numbered_2x2
       (screen_point 0 0) (screen_point 4 0) (screen_point 0 4)
       (uv_point (- 1 / 4) (3 / 4)) (uv_point 0 0) (uv_point 0 0) cleared =
     set_zbuffer_at plain_display 0 0 0 (draw_pixel plain_display 0 0 2 cleared) \<and>
     c_abs (c_int_of_float (- 1 / 2)) smod 2 = 0"
    using texel_coordinates_truncate [OF w h corner_finite_uv u v, of plain_display cleared
        "- 1 / 2"]
    by (simp add: corner_uv corner_depth z numbered_2x2_simps texel_abs_floor_def Let_def)
  with w h u v t corner_finite_uv show ?thesis
    by simp
qed

subsection \<open>The scan loops\<close>

declare scan_x.simps [simp del] scan_y.simps [simp del]

lemma run_pixels_append: "run_pixels pix (ps @ qs) s = run_pixels pix qs (run_pixels pix ps s)"
  by (simp add: run_pixels_def)

lemma run_pixels_Nil: "run_pixels pix [] s = s"
  by (simp add: run_pixels_def)

lemma scan_x_run: "scan_x pix y x x_end s = run_pixels pix (row_pixels (x, x_end) y) s"
proof (induction pix y x x_end s rule: scan_x.induct)
  case (1 pix y x x_end s)
  show ?case
  proof (cases "x < x_end")
    case True
    then have "[x..x_end - 1] = x # [x + 1..x_end - 1]"
      by (simp add: upto_rec1)
    with True 1 show ?thesis
      by (simp add: scan_x.simps [of pix y x] row_pixels_def run_pixels_def)
  next
    case False
    then show ?thesis
      by (simp add: scan_x.simps [of pix y x] row_pixels_def run_pixels_def)
  qed
qed

lemma scan_y_run:
  "scan_y pix x0 y0 x1 y1 i1 i2 y y_last s =
     run_pixels pix
       (concat (map (\<lambda>y. row_pixels (scan_bounds x0 y0 x1 y1 i1 i2 y) y) [y..y_last])) s"
proof (induction pix x0 y0 x1 y1 i1 i2 y y_last s rule: scan_y.induct)
  case (1 pix x0 y0 x1 y1 i1 i2 y y_last s)
  show ?case
  proof (cases "y \<le> y_last")
    case True
    obtain xs xe where b: "scan_bounds x0 y0 x1 y1 i1 i2 y = (xs, xe)"
      by (cases "scan_bounds x0 y0 x1 y1 i1 i2 y")
    have u: "[y..y_last] = y # [y + 1..y_last]"
      using True by (simp add: upto_rec1)
    have "scan_y pix x0 y0 x1 y1 i1 i2 y y_last s =
          scan_y pix x0 y0 x1 y1 i1 i2 (y + 1) y_last (scan_x pix y xs xe s)"
      using True b by (simp add: scan_y.simps [of pix x0 y0 x1 y1 i1 i2 y])
    also have "\<dots> = run_pixels pix
        (concat (map (\<lambda>y. row_pixels (scan_bounds x0 y0 x1 y1 i1 i2 y) y) [y + 1..y_last]))
        (scan_x pix y xs xe s)"
      using 1 [OF True b [symmetric] refl] by simp
    finally show ?thesis
      by (simp add: u b scan_x_run run_pixels_append)
  next
    case False
    then show ?thesis
      by (simp add: scan_y.simps [of pix x0 y0 x1 y1 i1 i2 y] run_pixels_Nil)
  qed
qed

lemma upper_row_fn:
  "upper_row x0 y0 x1 y1 x2 y2 =
     (\<lambda>y. row_pixels (scan_bounds x0 y0 x1 y1 (inv_slope (x1 - x0) (y1 - y0))
                        (inv_slope (x2 - x0) (y2 - y0)) y) y)"
  by (rule ext) (simp add: upper_row_def)

lemma lower_row_fn:
  "lower_row x0 y0 x1 y1 x2 y2 =
     (\<lambda>y. row_pixels (scan_bounds x0 y0 x1 y1 (inv_slope (x2 - x1) (y2 - y1))
                        (inv_slope (x2 - x0) (y2 - y0)) y) y)"
  by (rule ext) (simp add: lower_row_def)

lemma fill_triangle_run:
  "fill_triangle pix x0 y0 x1 y1 x2 y2 s = run_pixels pix (scan_pixels x0 y0 x1 y1 x2 y2) s"
  by (simp add: fill_triangle_def scan_pixels_def scan_y_run run_pixels_append run_pixels_Nil
      upper_row_fn lower_row_fn Let_def)

lemma run_note_pixel: "run_pixels note_pixel ps acc = acc @ ps"
  by (induction ps arbitrary: acc) (simp_all add: run_pixels_def note_pixel_def)

lemma visited_pixels_scan: "visited_pixels x0 y0 x1 y1 x2 y2 = scan_pixels x0 y0 x1 y1 x2 y2"
  by (simp add: visited_pixels_def fill_triangle_run run_note_pixel)

lemma sort_vertices_ascending:
  "sort_vertices v0 v1 v2 = (a, b, c) \<Longrightarrow> vertex_y a \<le> vertex_y b \<and> vertex_y b \<le> vertex_y c"
  by (auto simp: sort_vertices_def Let_def split: if_splits)

lemma sort_vertices_sorted:
  "vertex_y v0 \<le> vertex_y v1 \<Longrightarrow> vertex_y v1 \<le> vertex_y v2 \<Longrightarrow>
   sort_vertices v0 v1 v2 = (v0, v1, v2)"
  by (simp add: sort_vertices_def)

lemma draw_filled_sorted:
  assumes "y0 \<le> y1" "y1 \<le> y2"
  shows "draw_filled_triangle D x0 y0 z0 w0 x1 y1 z1 w1 x2 y2 z2 w2 color s =
     run_pixels (\<lambda>x y. draw_triangle_pixel D x y color
         \<lparr>vec4_x = of_int x0, vec4_y = of_int y0, vec4_z = z0, vec4_w = w0\<rparr>
         \<lparr>vec4_x = of_int x1, vec4_y = of_int y1, vec4_z = z1, vec4_w = w1\<rparr>
         \<lparr>vec4_x = of_int x2, vec4_y = of_int y2, vec4_z = z2, vec4_w = w2\<rparr>)
       (visited_pixels x0 y0 x1 y1 x2 y2) s"
  using assms
  by (simp add: draw_filled_triangle_def sort_vertices_sorted vertex_y_def fill_triangle_run
      visited_pixels_scan)

lemma draw_textured_sorted:
  assumes "y0 \<le> y1" "y1 \<le> y2"
  shows "draw_textured_triangle D x0 y0 z0 w0 u0 v0 x1 y1 z1 w1 u1 v1 x2 y2 z2 w2 u2 v2 texture s =
     run_pixels (\<lambda>x y. draw_texel D x y texture
         \<lparr>vec4_x = of_int x0, vec4_y = of_int y0, vec4_z = z0, vec4_w = w0\<rparr>
         \<lparr>vec4_x = of_int x1, vec4_y = of_int y1, vec4_z = z1, vec4_w = w1\<rparr>
         \<lparr>vec4_x = of_int x2, vec4_y = of_int y2, vec4_z = z2, vec4_w = w2\<rparr>
         \<lparr>tex_u = u0, tex_v = 1 - v0\<rparr> \<lparr>tex_u = u1, tex_v = 1 - v1\<rparr>
         \<lparr>tex_u = u2, tex_v = 1 - v2\<rparr>)
       (visited_pixels x0 y0 x1 y1 x2 y2) s"
  using assms
  by (simp add: draw_textured_triangle_def sort_vertices_sorted vertex_y_def fill_triangle_run
      visited_pixels_scan)

text \<open>For any order of the three vertices: the pixel routine runs over the pixels visited for
  the vertices as \<open>sort_vertices\<close> orders them, and that order is ascending in \<open>y\<close>
  (\<open>sort_vertices_ascending\<close>).\<close>

lemma draw_filled_visits:
  "draw_filled_triangle D x0 y0 z0 w0 x1 y1 z1 w1 x2 y2 z2 w2 color s =
     (case sort_vertices (x0, y0, z0, w0) (x1, y1, z1, w1) (x2, y2, z2, w2) of
        ((x0, y0, z0, w0), (x1, y1, z1, w1), (x2, y2, z2, w2)) \<Rightarrow>
          run_pixels (\<lambda>x y. draw_triangle_pixel D x y color
              \<lparr>vec4_x = of_int x0, vec4_y = of_int y0, vec4_z = z0, vec4_w = w0\<rparr>
              \<lparr>vec4_x = of_int x1, vec4_y = of_int y1, vec4_z = z1, vec4_w = w1\<rparr>
              \<lparr>vec4_x = of_int x2, vec4_y = of_int y2, vec4_z = z2, vec4_w = w2\<rparr>)
            (visited_pixels x0 y0 x1 y1 x2 y2) s)"
  by (simp add: draw_filled_triangle_def fill_triangle_run visited_pixels_scan split: prod.splits)

lemma draw_textured_visits:
  "draw_textured_triangle D x0 y0 z0 w0 u0 v0 x1 y1 z1 w1 u1 v1 x2 y2 z2 w2 u2 v2 texture s =
     (case sort_vertices (x0, y0, z0, w0, u0, v0) (x1, y1, z1, w1, u1, v1) (x2, y2, z2, w2, u2, v2) of
        ((x0, y0, z0, w0, u0, v0), (x1, y1, z1, w1, u1, v1), (x2, y2, z2, w2, u2, v2)) \<Rightarrow>
          run_pixels (\<lambda>x y. draw_texel D x y texture
              \<lparr>vec4_x = of_int x0, vec4_y = of_int y0, vec4_z = z0, vec4_w = w0\<rparr>
              \<lparr>vec4_x = of_int x1, vec4_y = of_int y1, vec4_z = z1, vec4_w = w1\<rparr>
              \<lparr>vec4_x = of_int x2, vec4_y = of_int y2, vec4_z = z2, vec4_w = w2\<rparr>
              \<lparr>tex_u = u0, tex_v = 1 - v0\<rparr> \<lparr>tex_u = u1, tex_v = 1 - v1\<rparr>
              \<lparr>tex_u = u2, tex_v = 1 - v2\<rparr>)
            (visited_pixels x0 y0 x1 y1 x2 y2) s)"
  by (simp add: draw_textured_triangle_def fill_triangle_run visited_pixels_scan Let_def
      split: prod.splits)

subsection \<open>Degenerate triangles\<close>

lemma draw_filled_flat: "draw_filled_triangle D x0 y z0 w0 x1 y z1 w1 x2 y z2 w2 color s = s"
  by (simp add: draw_filled_sorted visited_pixels_scan scan_pixels_def run_pixels_Nil)

lemma draw_textured_flat:
  "draw_textured_triangle D x0 y z0 w0 u0 v0 x1 y z1 w1 u1 v1 x2 y z2 w2 u2 v2 texture s = s"
  by (simp add: draw_textured_sorted visited_pixels_scan scan_pixels_def run_pixels_Nil)

text \<open>
  C6. A triangle whose three vertices share the same \<open>y\<close>: \<^verbatim>\<open>draw_filled_triangle\<close> and
  \<^verbatim>\<open>draw_textured_triangle\<close> return the state unchanged and make no call to \<^verbatim>\<open>draw_pixel\<close> or
  \<^verbatim>\<open>set_zbuffer_at\<close>; the scan loops visit no pixel. The inverse slope of a zero-height edge is
  zero (the division is not evaluated), and the part of a zero-height edge \<open>y1 = y0\<close> or
  \<open>y2 = y1\<close> is skipped.
\<close>

theorem degenerate_triangle_draws_nothing:
  "draw_filled_triangle D x0 y z0 w0 x1 y z1 w1 x2 y z2 w2 color s = s \<and>
   calls_of (draw_filled_triangle (recording D) x0 y z0 w0 x1 y z1 w1 x2 y z2 w2 color) s = [] \<and>
   draw_textured_triangle D x0 y z0 w0 u0 v0 x1 y z1 w1 u1 v1 x2 y z2 w2 u2 v2 texture s = s \<and>
   calls_of (draw_textured_triangle (recording D)
       x0 y z0 w0 u0 v0 x1 y z1 w1 u1 v1 x2 y z2 w2 u2 v2 texture) s = [] \<and>
   visited_pixels x0 y x1 y x2 y = [] \<and>
   inv_slope dx 0 = 0 \<and>
   visited_pixels x0 y x1 y x2 y2 =
     (if y2 - y \<noteq> 0 then concat (map (lower_row x0 y x1 y x2 y2) [y..y2]) else []) \<and>
   visited_pixels x0 y0 x1 y x2 y =
     (if y - y0 \<noteq> 0 then concat (map (upper_row x0 y0 x1 y x2 y) [y0..y]) else [])"
  by (simp add: draw_filled_flat draw_textured_flat calls_of_def visited_pixels_scan
      scan_pixels_def inv_slope_def)

subsection \<open>Independence of the z components\<close>

lemma pixel_weights_z:
  "pixel_weights \<lparr>vec4_x = ax, vec4_y = ay, vec4_z = az, vec4_w = aw\<rparr>
      \<lparr>vec4_x = bx, vec4_y = by, vec4_z = bz, vec4_w = bw\<rparr>
      \<lparr>vec4_x = cx, vec4_y = cy, vec4_z = cz, vec4_w = cw\<rparr> x y =
   barycentric_weights \<lparr>vec2_x = ax, vec2_y = ay\<rparr> \<lparr>vec2_x = bx, vec2_y = by\<rparr>
     \<lparr>vec2_x = cx, vec2_y = cy\<rparr> \<lparr>vec2_x = of_int x, vec2_y = of_int y\<rparr>"
  by (simp add: pixel_weights_def vec2_from_vec4_def)

lemma draw_filled_z:
  "draw_filled_triangle D x0 y0 z0 w0 x1 y1 z1 w1 x2 y2 z2 w2 color =
   draw_filled_triangle D x0 y0 z0' w0 x1 y1 z1' w1 x2 y2 z2' w2 color"
  by (rule ext)
    (simp add: draw_filled_triangle_def sort_vertices_def vertex_y_def Let_def
      draw_triangle_pixel_fn depth_metric_def inv_w_def pixel_weights_z cong: if_cong)

lemma draw_textured_z:
  "draw_textured_triangle D x0 y0 z0 w0 u0 v0 x1 y1 z1 w1 u1 v1 x2 y2 z2 w2 u2 v2 texture =
   draw_textured_triangle D x0 y0 z0' w0 u0 v0 x1 y1 z1' w1 u1 v1 x2 y2 z2' w2 u2 v2 texture"
  by (rule ext)
    (simp add: draw_textured_triangle_def sort_vertices_def vertex_y_def Let_def
      draw_texel_fn depth_metric_def inv_w_def pixel_weights_z texel_color_def persp_u_def
      persp_v_def cong: if_cong)

text \<open>
  C9. Two calls of \<^verbatim>\<open>draw_filled_triangle\<close>, or of \<^verbatim>\<open>draw_textured_triangle\<close>, whose arguments
  differ only in \<open>z0\<close>, \<open>z1\<close>, \<open>z2\<close> return the same state from the same state, for every
  display, and make the same sequence of \<^verbatim>\<open>draw_pixel\<close> and \<^verbatim>\<open>set_zbuffer_at\<close> calls.
\<close>

theorem z_independence:
  "draw_filled_triangle D x0 y0 z0 w0 x1 y1 z1 w1 x2 y2 z2 w2 color s =
     draw_filled_triangle D x0 y0 z0' w0 x1 y1 z1' w1 x2 y2 z2' w2 color s \<and>
   calls_of (draw_filled_triangle (recording D) x0 y0 z0 w0 x1 y1 z1 w1 x2 y2 z2 w2 color) s =
     calls_of (draw_filled_triangle (recording D) x0 y0 z0' w0 x1 y1 z1' w1 x2 y2 z2' w2 color) s \<and>
   draw_textured_triangle D x0 y0 z0 w0 u0 v0 x1 y1 z1 w1 u1 v1 x2 y2 z2 w2 u2 v2 texture s =
     draw_textured_triangle D x0 y0 z0' w0 u0 v0 x1 y1 z1' w1 u1 v1 x2 y2 z2' w2 u2 v2 texture s \<and>
   calls_of (draw_textured_triangle (recording D)
       x0 y0 z0 w0 u0 v0 x1 y1 z1 w1 u1 v1 x2 y2 z2 w2 u2 v2 texture) s =
     calls_of (draw_textured_triangle (recording D)
       x0 y0 z0' w0 u0 v0 x1 y1 z1' w1 u1 v1 x2 y2 z2' w2 u2 v2 texture) s"
proof (intro conjI)
  show "draw_filled_triangle D x0 y0 z0 w0 x1 y1 z1 w1 x2 y2 z2 w2 color s =
     draw_filled_triangle D x0 y0 z0' w0 x1 y1 z1' w1 x2 y2 z2' w2 color s"
    by (rule fun_cong [OF draw_filled_z])
  show "calls_of (draw_filled_triangle (recording D) x0 y0 z0 w0 x1 y1 z1 w1 x2 y2 z2 w2 color) s =
     calls_of (draw_filled_triangle (recording D) x0 y0 z0' w0 x1 y1 z1' w1 x2 y2 z2' w2 color) s"
    by (rule arg_cong [OF draw_filled_z])
  show "draw_textured_triangle D x0 y0 z0 w0 u0 v0 x1 y1 z1 w1 u1 v1 x2 y2 z2 w2 u2 v2 texture s =
     draw_textured_triangle D x0 y0 z0' w0 u0 v0 x1 y1 z1' w1 u1 v1 x2 y2 z2' w2 u2 v2 texture s"
    by (rule fun_cong [OF draw_textured_z])
  show "calls_of (draw_textured_triangle (recording D)
       x0 y0 z0 w0 u0 v0 x1 y1 z1 w1 u1 v1 x2 y2 z2 w2 u2 v2 texture) s =
     calls_of (draw_textured_triangle (recording D)
       x0 y0 z0' w0 u0 v0 x1 y1 z1' w1 u1 v1 x2 y2 z2' w2 u2 v2 texture) s"
    by (rule arg_cong [OF draw_textured_z])
qed

subsection \<open>The middle scanline\<close>

lemma row_pixels_mem:
  "(x, y') \<in> set (row_pixels b y) \<longleftrightarrow> y' = y \<and> fst b \<le> x \<and> x < snd b"
  by (auto simp: row_pixels_def)

lemma row_pixels_snd: "p \<in> set (row_pixels b y) \<Longrightarrow> snd p = y"
  by (auto simp: row_pixels_def)

lemma distinct_row_pixels: "distinct (row_pixels b y)"
  by (simp add: row_pixels_def distinct_map inj_on_def)

lemma count_list_distinct: "distinct xs \<Longrightarrow> x \<in> set xs \<Longrightarrow> count_list xs x = 1"
  by (induction xs) (auto simp: count_list_0_iff)

lemma count_other_rows:
  assumes "\<And>y. y \<in> set ys \<Longrightarrow> y \<noteq> y'"
  shows "count_list (concat (map (\<lambda>y. row_pixels (f y) y) ys)) (x, y') = 0"
  using assms by (auto simp: count_list_0_iff row_pixels_mem)

lemma visited_pixels_ascending:
  assumes "y0 < y1" "y1 < y2"
  shows "visited_pixels x0 y0 x1 y1 x2 y2 =
     concat (map (upper_row x0 y0 x1 y1 x2 y2) [y0..y1]) @
     concat (map (lower_row x0 y0 x1 y1 x2 y2) [y1..y2])"
  using assms by (simp add: visited_pixels_scan scan_pixels_def)

lemma middle_row_same: "upper_row x0 y0 x1 y1 x2 y2 y1 = lower_row x0 y0 x1 y1 x2 y2 y1"
  by (simp add: upper_row_def lower_row_def scan_bounds_def)

lemma count_middle_row:
  assumes "y0 < y1" "y1 < y2" "p \<in> set (upper_row x0 y0 x1 y1 x2 y2 y1)"
  shows "count_list (visited_pixels x0 y0 x1 y1 x2 y2) p = 2"
proof -
  have "snd p = y1"
    using assms(3) by (simp add: upper_row_def row_pixels_snd)
  then obtain x where p: "p = (x, y1)"
    by (cases p) simp
  have up: "[y0..y1] = [y0..y1 - 1] @ [y1]"
    using assms(1) by (simp add: upto_rec2)
  have lo: "[y1..y2] = y1 # [y1 + 1..y2]"
    using assms(2) by (simp add: upto_rec1)
  have a: "count_list (concat (map (upper_row x0 y0 x1 y1 x2 y2) [y0..y1 - 1])) p = 0"
    unfolding upper_row_fn p by (rule count_other_rows) simp
  have b: "count_list (concat (map (lower_row x0 y0 x1 y1 x2 y2) [y1 + 1..y2])) p = 0"
    unfolding lower_row_fn p by (rule count_other_rows) simp
  have c: "count_list (upper_row x0 y0 x1 y1 x2 y2 y1) p = 1"
    using assms(3) by (simp add: count_list_distinct upper_row_def distinct_row_pixels)
  have d: "count_list (lower_row x0 y0 x1 y1 x2 y2 y1) p = 1"
    using c by (simp add: middle_row_same)
  show ?thesis
    by (simp add: visited_pixels_ascending [OF assms(1,2)] up lo a b c d)
qed

text \<open>
  C10. With the vertices in ascending order of \<open>y\<close>, \<open>y0 < y1 < y2\<close>: the pixels visited are the
  rows of every \<open>y\<close> from \<open>y0\<close> to \<open>y1\<close> inclusive (the upper loop) followed by the rows of every
  \<open>y\<close> from \<open>y1\<close> to \<open>y2\<close> inclusive (the lower loop); the two loops give the row \<open>y1\<close> the same
  pixels, and each of them is visited exactly twice. \<^verbatim>\<open>draw_filled_triangle\<close> applies
  \<^verbatim>\<open>draw_triangle_pixel\<close>, and \<^verbatim>\<open>draw_textured_triangle\<close> applies \<^verbatim>\<open>draw_texel\<close>, to the visited
  pixels in this order.
\<close>

theorem middle_scanline_visited_twice:
  assumes "y0 < y1" and "y1 < y2"
  shows "visited_pixels x0 y0 x1 y1 x2 y2 =
       concat (map (upper_row x0 y0 x1 y1 x2 y2) [y0..y1]) @
       concat (map (lower_row x0 y0 x1 y1 x2 y2) [y1..y2]) \<and>
     upper_row x0 y0 x1 y1 x2 y2 y1 = lower_row x0 y0 x1 y1 x2 y2 y1 \<and>
     (\<forall>p \<in> set (upper_row x0 y0 x1 y1 x2 y2 y1).
        snd p = y1 \<and> count_list (visited_pixels x0 y0 x1 y1 x2 y2) p = 2) \<and>
     draw_filled_triangle D x0 y0 z0 w0 x1 y1 z1 w1 x2 y2 z2 w2 color s =
       run_pixels (\<lambda>x y. draw_triangle_pixel D x y color
           \<lparr>vec4_x = of_int x0, vec4_y = of_int y0, vec4_z = z0, vec4_w = w0\<rparr>
           \<lparr>vec4_x = of_int x1, vec4_y = of_int y1, vec4_z = z1, vec4_w = w1\<rparr>
           \<lparr>vec4_x = of_int x2, vec4_y = of_int y2, vec4_z = z2, vec4_w = w2\<rparr>)
         (visited_pixels x0 y0 x1 y1 x2 y2) s \<and>
     draw_textured_triangle D x0 y0 z0 w0 u0 v0 x1 y1 z1 w1 u1 v1 x2 y2 z2 w2 u2 v2 texture s =
       run_pixels (\<lambda>x y. draw_texel D x y texture
           \<lparr>vec4_x = of_int x0, vec4_y = of_int y0, vec4_z = z0, vec4_w = w0\<rparr>
           \<lparr>vec4_x = of_int x1, vec4_y = of_int y1, vec4_z = z1, vec4_w = w1\<rparr>
           \<lparr>vec4_x = of_int x2, vec4_y = of_int y2, vec4_z = z2, vec4_w = w2\<rparr>
           \<lparr>tex_u = u0, tex_v = 1 - v0\<rparr> \<lparr>tex_u = u1, tex_v = 1 - v1\<rparr>
           \<lparr>tex_u = u2, tex_v = 1 - v2\<rparr>)
         (visited_pixels x0 y0 x1 y1 x2 y2) s"
proof (intro conjI ballI)
  show "visited_pixels x0 y0 x1 y1 x2 y2 =
       concat (map (upper_row x0 y0 x1 y1 x2 y2) [y0..y1]) @
       concat (map (lower_row x0 y0 x1 y1 x2 y2) [y1..y2])"
    using assms by (rule visited_pixels_ascending)
  show "upper_row x0 y0 x1 y1 x2 y2 y1 = lower_row x0 y0 x1 y1 x2 y2 y1"
    by (rule middle_row_same)
next
  fix p assume p: "p \<in> set (upper_row x0 y0 x1 y1 x2 y2 y1)"
  then show "snd p = y1"
    by (simp add: upper_row_def row_pixels_snd)
  from assms p show "count_list (visited_pixels x0 y0 x1 y1 x2 y2) p = 2"
    by (rule count_middle_row)
next
  from assms have le: "y0 \<le> y1" "y1 \<le> y2" by simp_all
  from le show "draw_filled_triangle D x0 y0 z0 w0 x1 y1 z1 w1 x2 y2 z2 w2 color s =
       run_pixels (\<lambda>x y. draw_triangle_pixel D x y color
           \<lparr>vec4_x = of_int x0, vec4_y = of_int y0, vec4_z = z0, vec4_w = w0\<rparr>
           \<lparr>vec4_x = of_int x1, vec4_y = of_int y1, vec4_z = z1, vec4_w = w1\<rparr>
           \<lparr>vec4_x = of_int x2, vec4_y = of_int y2, vec4_z = z2, vec4_w = w2\<rparr>)
         (visited_pixels x0 y0 x1 y1 x2 y2) s"
    by (rule draw_filled_sorted)
  from le show "draw_textured_triangle D x0 y0 z0 w0 u0 v0 x1 y1 z1 w1 u1 v1 x2 y2 z2 w2 u2 v2 texture s =
       run_pixels (\<lambda>x y. draw_texel D x y texture
           \<lparr>vec4_x = of_int x0, vec4_y = of_int y0, vec4_z = z0, vec4_w = w0\<rparr>
           \<lparr>vec4_x = of_int x1, vec4_y = of_int y1, vec4_z = z1, vec4_w = w1\<rparr>
           \<lparr>vec4_x = of_int x2, vec4_y = of_int y2, vec4_z = z2, vec4_w = w2\<rparr>
           \<lparr>tex_u = u0, tex_v = 1 - v0\<rparr> \<lparr>tex_u = u1, tex_v = 1 - v1\<rparr>
           \<lparr>tex_u = u2, tex_v = 1 - v2\<rparr>)
         (visited_pixels x0 y0 x1 y1 x2 y2) s"
    by (rule draw_textured_sorted)
qed

lemma rows_example:
  "upper_row 0 0 2 1 0 2 0 = []" "upper_row 0 0 2 1 0 2 1 = [(0, 1), (1, 1)]"
  "lower_row 0 0 2 1 0 2 1 = [(0, 1), (1, 1)]" "lower_row 0 0 2 1 0 2 2 = []"
  by (simp_all add: upper_row_def lower_row_def scan_bounds_def inv_slope_def c_int_of_float_def
      row_pixels_def upto_rec1)

theorem middle_scanline_witness:
  "(0::int) < 1 \<and> (1::int) < 2 \<and>
   visited_pixels 0 0 2 1 0 2 = [(0, 1), (1, 1), (0, 1), (1, 1)] \<and>
   count_list (visited_pixels 0 0 2 1 0 2) (0, 1) = 2 \<and>
   count_list (visited_pixels 0 0 2 1 0 2) (1, 1) = 2"
proof -
  have a: "(0::int) < 1" and b: "(1::int) < 2" by simp_all
  show ?thesis
    using middle_scanline_visited_twice [OF a b, of 0 2 0 plain_display 0 1 0 1 0 1 0 cleared
        0 0 0 0 0 0 numbered_2x2]
    by (simp add: rows_example upto_rec1)
qed

end
